theory Spec2Isabelle
  imports Complex_Main
begin

section \<open>The external interface of collision_detection_example.py\<close>

text \<open>
  The script is orchestration around the pybullet simulator and the CollisionDetector
  helper. Every call that leaves the script is an event of type \<open>call\<close>, carrying the
  arguments the script passes. Python floats are modelled as \<open>real\<close>: the script only
  transports them. A call whose \<open>physicsClientId\<close> the source omits has no client field.
\<close>

type_synonym client_id = int
type_synonym body_id = int
type_synonym param_id = int
type_synonym 'v dict = "(string \<times> 'v) list"

datatype conn_mode = GUI | DIRECT

text \<open>
  Modelled from the spec: NamedCollisionObject of pyb_utils.collision is not under src/;
  the glossary describes it as a (body, optional link) reference.
\<close>

record NamedCollisionObject =
  body_name :: string
  link_name :: "string option"

text \<open>
  Modelled from the spec: the CollisionDetector class of pyb_utils.collision is not under
  src/; it is built from the headless session, that session's body mapping and the list
  of named collision-object pairs to monitor.
\<close>

record CollisionDetector =
  det_client :: client_id
  det_bodies :: "body_id dict"
  det_pairs :: "(NamedCollisionObject \<times> NamedCollisionObject) list"

datatype call =
    Connect conn_mode
  | SetAdditionalSearchPath string client_id
  | LoadURDF string "real list" bool client_id
  | AddUserDebugParameter string real real real client_id
  | ReadUserDebugParameter param_id
  | GetNumJoints body_id client_id
  | ResetJointState body_id nat real client_id
  | AddUserDebugText string "real list" "real list" real real
  | StepSimulation client_id
  | ComputeDistances CollisionDetector "real list"
  | InCollision CollisionDetector "real list" real
  | Print string "real list"

text \<open>
  The outside world is deterministic in the history of calls: after the calls \<open>tr\<close>, the
  call \<open>c\<close> either raises (\<open>raises env tr c = Some msg\<close>) or returns the value the field
  of its result type gives.
\<close>

record sim =
  getDataPath :: string
  raises :: "call list \<Rightarrow> call \<Rightarrow> string option"
  ret_int :: "call list \<Rightarrow> call \<Rightarrow> int"
  ret_float :: "call list \<Rightarrow> call \<Rightarrow> real"
  ret_floats :: "call list \<Rightarrow> call \<Rightarrow> real list"

datatype error = IndexError | KeyError string | LibraryError string

text \<open>A computation threads the trace of calls made so far and returns a value or an exception.\<close>

type_synonym 'a prog = "call list \<Rightarrow> (error + 'a) \<times> call list"

definition preturn :: "'a \<Rightarrow> 'a prog" where
  "preturn a tr = (Inr a, tr)"

definition praise :: "error \<Rightarrow> 'a prog" where
  "praise e tr = (Inl e, tr)"

definition pbind :: "'a prog \<Rightarrow> ('a \<Rightarrow> 'b prog) \<Rightarrow> 'b prog" where
  "pbind m f tr = (case m tr of (Inl e, tr') \<Rightarrow> (Inl e, tr') | (Inr a, tr') \<Rightarrow> f a tr')"

definition invoke :: "sim \<Rightarrow> (call list \<Rightarrow> call \<Rightarrow> 'a) \<Rightarrow> call \<Rightarrow> 'a prog" where
  "invoke env ret c tr =
     (case raises env tr c of
        Some msg \<Rightarrow> (Inl (LibraryError msg), tr @ [c])
      | None \<Rightarrow> (Inr (ret tr c), tr @ [c]))"

definition no_value :: "call list \<Rightarrow> call \<Rightarrow> unit" where
  "no_value tr c = ()"

text \<open>Python's \<open>d[k]\<close> on a dict and \<open>a[i]\<close> on an array with a non-negative index.\<close>

definition dict_getitem :: "'v dict \<Rightarrow> string \<Rightarrow> 'v prog" where
  "dict_getitem d k = (case map_of d k of None \<Rightarrow> praise (KeyError k) | Some v \<Rightarrow> preturn v)"

definition array_getitem :: "real list \<Rightarrow> nat \<Rightarrow> real prog" where
  "array_getitem a i = (if i < length a then preturn (a ! i) else praise IndexError)"

subsection \<open>pybullet\<close>

definition connect :: "sim \<Rightarrow> conn_mode \<Rightarrow> client_id prog" where
  "connect env mode = invoke env (ret_int env) (Connect mode)"

definition setAdditionalSearchPath :: "sim \<Rightarrow> string \<Rightarrow> client_id \<Rightarrow> unit prog" where
  "setAdditionalSearchPath env path physicsClientId =
     invoke env no_value (SetAdditionalSearchPath path physicsClientId)"

definition loadURDF :: "sim \<Rightarrow> string \<Rightarrow> real list \<Rightarrow> bool \<Rightarrow> client_id \<Rightarrow> body_id prog" where
  "loadURDF env fileName basePosition useFixedBase physicsClientId =
     invoke env (ret_int env) (LoadURDF fileName basePosition useFixedBase physicsClientId)"

definition addUserDebugParameter ::
  "sim \<Rightarrow> string \<Rightarrow> real \<Rightarrow> real \<Rightarrow> real \<Rightarrow> client_id \<Rightarrow> param_id prog" where
  "addUserDebugParameter env paramName rangeMin rangeMax startValue physicsClientId =
     invoke env (ret_int env)
       (AddUserDebugParameter paramName rangeMin rangeMax startValue physicsClientId)"

definition readUserDebugParameter :: "sim \<Rightarrow> param_id \<Rightarrow> real prog" where
  "readUserDebugParameter env itemUniqueId =
     invoke env (ret_float env) (ReadUserDebugParameter itemUniqueId)"

definition getNumJoints :: "sim \<Rightarrow> body_id \<Rightarrow> client_id \<Rightarrow> int prog" where
  "getNumJoints env bodyUniqueId physicsClientId =
     invoke env (ret_int env) (GetNumJoints bodyUniqueId physicsClientId)"

definition resetJointState :: "sim \<Rightarrow> body_id \<Rightarrow> nat \<Rightarrow> real \<Rightarrow> client_id \<Rightarrow> unit prog" where
  "resetJointState env bodyUniqueId jointIndex targetValue physicsClientId =
     invoke env no_value (ResetJointState bodyUniqueId jointIndex targetValue physicsClientId)"

definition addUserDebugText ::
  "sim \<Rightarrow> string \<Rightarrow> real list \<Rightarrow> real list \<Rightarrow> real \<Rightarrow> real \<Rightarrow> unit prog" where
  "addUserDebugText env text textPosition textColorRGB textSize lifeTime =
     invoke env no_value (AddUserDebugText text textPosition textColorRGB textSize lifeTime)"

definition stepSimulation :: "sim \<Rightarrow> client_id \<Rightarrow> unit prog" where
  "stepSimulation env physicsClientId = invoke env no_value (StepSimulation physicsClientId)"

definition print :: "sim \<Rightarrow> string \<Rightarrow> real list \<Rightarrow> unit prog" where
  "print env label d = invoke env no_value (Print label d)"

subsection \<open>pyb_utils.collision\<close>

text \<open>
  Modelled from the spec: the constructor of NamedCollisionObject is not under src/; a
  named collision object is a body name with an optional link name.
\<close>

definition new_NamedCollisionObject :: "string \<Rightarrow> string option \<Rightarrow> NamedCollisionObject" where
  "new_NamedCollisionObject b l = \<lparr>body_name = b, link_name = l\<rparr>"

text \<open>
  Modelled from the spec: the constructor of CollisionDetector is not under src/; the
  detector keeps the session, the body mapping and the pairs it is given.
\<close>

definition new_CollisionDetector ::
  "client_id \<Rightarrow> body_id dict \<Rightarrow> (NamedCollisionObject \<times> NamedCollisionObject) list
   \<Rightarrow> CollisionDetector" where
  "new_CollisionDetector c bodies pairs = \<lparr>det_client = c, det_bodies = bodies, det_pairs = pairs\<rparr>"

text \<open>
  Modelled from the spec: CollisionDetector.compute_distances is not under src/; it
  fetches the pairwise shortest distances of the monitored pairs for a configuration.
\<close>

definition compute_distances :: "sim \<Rightarrow> CollisionDetector \<Rightarrow> real list \<Rightarrow> real list prog" where
  "compute_distances env det q = invoke env (ret_floats env) (ComputeDistances det q)"

text \<open>
  Modelled from the spec: the test CollisionDetector.in_collision applies is not under
  src/; the computed minimum distance is less than the margin.
\<close>

definition min_distance_below :: "real list \<Rightarrow> real \<Rightarrow> bool" where
  "min_distance_below ds margin = (ds \<noteq> [] \<and> min_list ds < margin)"

text \<open>
  Modelled from the spec: CollisionDetector.in_collision is not under src/; it reports a
  configuration as colliding when the computed minimum distance is less than the margin.
  The distances the check computes are the simulator's answer to the query.
\<close>

definition in_collision :: "sim \<Rightarrow> CollisionDetector \<Rightarrow> real list \<Rightarrow> real \<Rightarrow> bool prog" where
  "in_collision env det q margin =
     pbind (invoke env (ret_floats env) (InCollision det q margin))
       (\<lambda>ds. preturn (min_distance_below ds margin))"

section \<open>The script\<close>

definition load_environment :: "sim \<Rightarrow> client_id \<Rightarrow> body_id dict prog" where
  "load_environment env client_id =
     pbind (setAdditionalSearchPath env (getDataPath env) client_id) (\<lambda>_.
     pbind (loadURDF env ''plane.urdf'' [0, 0, 0] True client_id) (\<lambda>ground_id.
     pbind (loadURDF env ''kuka_iiwa/model.urdf'' [0, 0, 0] True client_id) (\<lambda>kuka_id.
     pbind (loadURDF env ''cube.urdf'' [1, 1, 0.5] True client_id) (\<lambda>cube1_id.
     pbind (loadURDF env ''cube.urdf'' [-1, -1, 0.5] True client_id) (\<lambda>cube2_id.
     pbind (loadURDF env ''cube.urdf'' [1, -1, 0.5] True client_id) (\<lambda>cube3_id.
     preturn
       [(''robot'', kuka_id),
        (''ground'', ground_id),
        (''cube1'', cube1_id),
        (''cube2'', cube2_id),
        (''cube3'', cube3_id)]))))))"

definition create_user_debug_params :: "sim \<Rightarrow> client_id \<Rightarrow> param_id dict prog" where
  "create_user_debug_params env gui_id =
     pbind (addUserDebugParameter env ''collision_margin'' 0 0.2 0.01 gui_id) (\<lambda>p0.
     pbind (addUserDebugParameter env ''lbr_iiwa_joint1'' (- 2 * pi) (2 * pi) 0 gui_id) (\<lambda>p1.
     pbind (addUserDebugParameter env ''lbr_iiwa_joint2'' (- 2 * pi) (2 * pi) 0 gui_id) (\<lambda>p2.
     pbind (addUserDebugParameter env ''lbr_iiwa_joint3'' (- 2 * pi) (2 * pi) 0 gui_id) (\<lambda>p3.
     pbind (addUserDebugParameter env ''lbr_iiwa_joint4'' (- 2 * pi) (2 * pi) 0 gui_id) (\<lambda>p4.
     pbind (addUserDebugParameter env ''lbr_iiwa_joint5'' (- 2 * pi) (2 * pi) 0 gui_id) (\<lambda>p5.
     pbind (addUserDebugParameter env ''lbr_iiwa_joint6'' (- 2 * pi) (2 * pi) 0 gui_id) (\<lambda>p6.
     pbind (addUserDebugParameter env ''lbr_iiwa_joint7'' (- 2 * pi) (2 * pi) 0 gui_id) (\<lambda>p7.
     preturn
       [(''collision_margin'', p0),
        (''lbr_iiwa_joint1'', p1),
        (''lbr_iiwa_joint2'', p2),
        (''lbr_iiwa_joint3'', p3),
        (''lbr_iiwa_joint4'', p4),
        (''lbr_iiwa_joint5'', p5),
        (''lbr_iiwa_joint6'', p6),
        (''lbr_iiwa_joint7'', p7)]))))))))"

text \<open>The body of the \<open>for\<close> loop of update_robot_state, over the joint indices left.\<close>

fun reset_joints :: "sim \<Rightarrow> body_id \<Rightarrow> real list \<Rightarrow> client_id \<Rightarrow> nat list \<Rightarrow> unit prog" where
  "reset_joints env robot_id state physicsClientId [] = preturn ()"
| "reset_joints env robot_id state physicsClientId (joint_idx # rest) =
     pbind (array_getitem state joint_idx) (\<lambda>x.
     pbind (resetJointState env robot_id joint_idx x physicsClientId) (\<lambda>_.
     reset_joints env robot_id state physicsClientId rest))"

definition update_robot_state :: "sim \<Rightarrow> body_id \<Rightarrow> real list \<Rightarrow> client_id \<Rightarrow> unit prog" where
  "update_robot_state env robot_id state physicsClientId =
     pbind (getNumJoints env robot_id physicsClientId) (\<lambda>n.
     reset_joints env robot_id state physicsClientId [0..<nat n])"

text \<open>The local variables of main that the loop reads.\<close>

record ctx =
  gui_id :: client_id
  col_id :: client_id
  user_params :: "param_id dict"
  bodies :: "body_id dict"
  collision_bodies :: "body_id dict"
  col_detector :: CollisionDetector
  robot_id :: body_id

text \<open>Lines 68 to 94 of main: everything before the loop.\<close>

definition main_setup :: "sim \<Rightarrow> ctx prog" where
  "main_setup env =
     pbind (connect env GUI) (\<lambda>gui.
     pbind (connect env DIRECT) (\<lambda>col.
     pbind (create_user_debug_params env gui) (\<lambda>params.
     pbind (load_environment env gui) (\<lambda>bs.
     pbind (load_environment env col) (\<lambda>cbs.
     let ground = new_NamedCollisionObject ''ground'' None;
         cube1 = new_NamedCollisionObject ''cube1'' None;
         cube2 = new_NamedCollisionObject ''cube2'' None;
         cube3 = new_NamedCollisionObject ''cube3'' None;
         link7 = new_NamedCollisionObject ''robot'' (Some ''lbr_iiwa_link_7'');
         det = new_CollisionDetector col cbs
                 [(link7, ground), (link7, cube1), (link7, cube2), (link7, cube3)]
     in pbind (dict_getitem bs ''robot'') (\<lambda>rid.
        preturn \<lparr>gui_id = gui, col_id = col, user_params = params, bodies = bs,
                 collision_bodies = cbs, col_detector = det, robot_id = rid\<rparr>))))))"

definition read_slider :: "sim \<Rightarrow> param_id dict \<Rightarrow> string \<Rightarrow> real prog" where
  "read_slider env params name =
     pbind (dict_getitem params name) (\<lambda>p. readUserDebugParameter env p)"

text \<open>Lines 97 to 126 of main: one iteration of the loop.\<close>

definition loop_body :: "sim \<Rightarrow> ctx \<Rightarrow> unit prog" where
  "loop_body env c =
     pbind (read_slider env (user_params c) ''lbr_iiwa_joint1'') (\<lambda>q1.
     pbind (read_slider env (user_params c) ''lbr_iiwa_joint2'') (\<lambda>q2.
     pbind (read_slider env (user_params c) ''lbr_iiwa_joint3'') (\<lambda>q3.
     pbind (read_slider env (user_params c) ''lbr_iiwa_joint4'') (\<lambda>q4.
     pbind (read_slider env (user_params c) ''lbr_iiwa_joint5'') (\<lambda>q5.
     pbind (read_slider env (user_params c) ''lbr_iiwa_joint6'') (\<lambda>q6.
     pbind (read_slider env (user_params c) ''lbr_iiwa_joint7'') (\<lambda>q7.
     let q = [q1, q2, q3, q4, q5, q6, q7] in
     pbind (compute_distances env (col_detector c) q) (\<lambda>d.
     pbind (read_slider env (user_params c) ''collision_margin'') (\<lambda>margin.
     pbind (in_collision env (col_detector c) q margin) (\<lambda>in_col.
     pbind (if \<not> in_col
            then update_robot_state env (robot_id c) q (gui_id c)
            else addUserDebugText env ''Avoiding collision'' [0, 0, 1.5] [1, 0, 0] 2 0.2) (\<lambda>_.
     pbind (print env ''Distance to obstacles = '' d) (\<lambda>_.
     stepSimulation env (gui_id c)))))))))))))"

text \<open>
  \<open>while True\<close>: the loop has no normal exit, so it either runs forever (\<open>None\<close>) or is
  left by the exception of an iteration, with the trace at that moment.
\<close>

partial_function (option) main_loop :: "sim \<Rightarrow> ctx \<Rightarrow> call list \<Rightarrow> (error \<times> call list) option" where
  "main_loop env c tr =
     (case loop_body env c tr of
        (Inl e, tr') \<Rightarrow> Some (e, tr')
      | (Inr u, tr') \<Rightarrow> main_loop env c tr')"

definition main :: "sim \<Rightarrow> call list \<Rightarrow> (error \<times> call list) option" where
  "main env tr =
     (case main_setup env tr of
        (Inl e, tr') \<Rightarrow> Some (e, tr')
      | (Inr c, tr') \<Rightarrow> main_loop env c tr')"

text \<open>The first \<open>n\<close> iterations of the loop, stopping at the first exception.\<close>

fun iterations :: "sim \<Rightarrow> ctx \<Rightarrow> nat \<Rightarrow> unit prog" where
  "iterations env c 0 = preturn ()"
| "iterations env c (Suc n) = pbind (loop_body env c) (\<lambda>_. iterations env c n)"

section \<open>Vocabulary of the properties\<close>

text \<open>The value the \<open>i\<close>-th call of \<open>new\<close> returned, when \<open>new\<close> was issued after \<open>tr\<close>.\<close>

definition returned :: "(call list \<Rightarrow> call \<Rightarrow> 'a) \<Rightarrow> call list \<Rightarrow> call list \<Rightarrow> nat \<Rightarrow> 'a" where
  "returned ret tr new i = ret (tr @ take i new) (new ! i)"

text \<open>The \<open>physicsClientId\<close> a call passes, if it passes one.\<close>

fun explicit_client :: "call \<Rightarrow> client_id option" where
  "explicit_client (SetAdditionalSearchPath p c) = Some c"
| "explicit_client (LoadURDF f p b c) = Some c"
| "explicit_client (AddUserDebugParameter n lo hi v c) = Some c"
| "explicit_client (GetNumJoints b c) = Some c"
| "explicit_client (ResetJointState b j v c) = Some c"
| "explicit_client (StepSimulation c) = Some c"
| "explicit_client x = None"

text \<open>The same call addressed to another session.\<close>

fun on_client :: "client_id \<Rightarrow> call \<Rightarrow> call" where
  "on_client c (SetAdditionalSearchPath p c') = SetAdditionalSearchPath p c"
| "on_client c (LoadURDF f p b c') = LoadURDF f p b c"
| "on_client c (AddUserDebugParameter n lo hi v c') = AddUserDebugParameter n lo hi v c"
| "on_client c (GetNumJoints b c') = GetNumJoints b c"
| "on_client c (ResetJointState b j v c') = ResetJointState b j v c"
| "on_client c (StepSimulation c') = StepSimulation c"
| "on_client c x = x"

text \<open>
  The session a call addresses: the client it passes, the session of the detector it
  queries, or pybullet's default client 0 where the source passes no \<open>physicsClientId\<close>.
\<close>

definition default_client :: client_id where
  "default_client = 0"

fun session_of :: "call \<Rightarrow> client_id option" where
  "session_of (ReadUserDebugParameter p) = Some default_client"
| "session_of (AddUserDebugText t p col s l) = Some default_client"
| "session_of (ComputeDistances det q) = Some (det_client det)"
| "session_of (InCollision det q m) = Some (det_client det)"
| "session_of x = explicit_client x"

fun is_query :: "call \<Rightarrow> bool" where
  "is_query (ComputeDistances det q) = True"
| "is_query (InCollision det q m) = True"
| "is_query x = False"

fun is_slider_read :: "call \<Rightarrow> bool" where
  "is_slider_read (ReadUserDebugParameter p) = True"
| "is_slider_read x = False"

fun is_step :: "call \<Rightarrow> bool" where
  "is_step (StepSimulation c) = True"
| "is_step x = False"

fun is_joint_reset :: "call \<Rightarrow> bool" where
  "is_joint_reset (ResetJointState b j v c) = True"
| "is_joint_reset x = False"

fun is_debug_text :: "call \<Rightarrow> bool" where
  "is_debug_text (AddUserDebugText t p col s l) = True"
| "is_debug_text x = False"

text \<open>The calls an iteration of the loop can issue, with the context \<open>c\<close> of main.\<close>

fun loop_call :: "ctx \<Rightarrow> call \<Rightarrow> bool" where
  "loop_call c (ReadUserDebugParameter p) = True"
| "loop_call c (ComputeDistances det q) = (det = col_detector c \<and> length q = 7)"
| "loop_call c (InCollision det q m) = (det = col_detector c \<and> length q = 7)"
| "loop_call c (GetNumJoints b cl) = (b = robot_id c \<and> cl = gui_id c)"
| "loop_call c (ResetJointState b j v cl) = (b = robot_id c \<and> cl = gui_id c)"
| "loop_call c (AddUserDebugText t p col s l) =
     (t = ''Avoiding collision'' \<and> p = [0, 0, 1.5] \<and> col = [1, 0, 0] \<and> s = 2 \<and> l = 0.2)"
| "loop_call c (Print l d) = (l = ''Distance to obstacles = '')"
| "loop_call c (StepSimulation cl) = (cl = gui_id c)"
| "loop_call c x = False"

text \<open>Every call a computation issues satisfies \<open>P\<close>, whatever its outcome.\<close>

definition only_calls :: "(call \<Rightarrow> bool) \<Rightarrow> 'a prog \<Rightarrow> bool" where
  "only_calls P m \<longleftrightarrow> (\<forall>tr. \<exists>new. snd (m tr) = tr @ new \<and> list_all P new)"


text \<open>A computation that never ends with the exception \<open>e\<close>.\<close>

definition never_raises :: "error \<Rightarrow> 'a prog \<Rightarrow> bool" where
  "never_raises e m \<longleftrightarrow> (\<forall>tr. fst (m tr) \<noteq> Inl e)"

section \<open>A concrete simulator\<close>

text \<open>
  A simulator in which no call raises: sessions, bodies and sliders are numbered from 0
  in the order of their creation (bodies per session), the robot has seven joints, the
  margin slider stands at 0.01 and the joint sliders at 0, and every distance query
  answers \<open>ds\<close>.
\<close>

fun is_load_on :: "client_id \<Rightarrow> call \<Rightarrow> bool" where
  "is_load_on c (LoadURDF f p b c') = (c' = c)"
| "is_load_on c x = False"

fun is_slider :: "call \<Rightarrow> bool" where
  "is_slider (AddUserDebugParameter n lo hi v c) = True"
| "is_slider x = False"

fun demo_int :: "call list \<Rightarrow> call \<Rightarrow> int" where
  "demo_int tr (Connect GUI) = 0"
| "demo_int tr (Connect DIRECT) = 1"
| "demo_int tr (LoadURDF f p b c) = int (length (filter (is_load_on c) tr))"
| "demo_int tr (AddUserDebugParameter n lo hi v c) = int (length (filter is_slider tr))"
| "demo_int tr (GetNumJoints b c) = 7"
| "demo_int tr x = 0"

fun demo_float :: "call list \<Rightarrow> call \<Rightarrow> real" where
  "demo_float tr (ReadUserDebugParameter p) = (if p = 0 then 0.01 else 0)"
| "demo_float tr x = 0"

definition demo_sim :: "real list \<Rightarrow> sim" where
  "demo_sim ds =
     \<lparr>getDataPath = ''pybullet_data'', raises = (\<lambda>tr c. None), ret_int = demo_int,
      ret_float = demo_float, ret_floats = (\<lambda>tr c. ds)\<rparr>"

text \<open>What main's setup leaves behind in this simulator.\<close>

definition demo_bodies :: "body_id dict" where
  "demo_bodies = [(''robot'', 1), (''ground'', 0), (''cube1'', 2), (''cube2'', 3), (''cube3'', 4)]"

definition demo_detector :: CollisionDetector where
  "demo_detector =
     \<lparr>det_client = 1, det_bodies = demo_bodies,
      det_pairs =
        [(\<lparr>body_name = ''robot'', link_name = Some ''lbr_iiwa_link_7''\<rparr>,
          \<lparr>body_name = ''ground'', link_name = None\<rparr>),
         (\<lparr>body_name = ''robot'', link_name = Some ''lbr_iiwa_link_7''\<rparr>,
          \<lparr>body_name = ''cube1'', link_name = None\<rparr>),
         (\<lparr>body_name = ''robot'', link_name = Some ''lbr_iiwa_link_7''\<rparr>,
          \<lparr>body_name = ''cube2'', link_name = None\<rparr>),
         (\<lparr>body_name = ''robot'', link_name = Some ''lbr_iiwa_link_7''\<rparr>,
          \<lparr>body_name = ''cube3'', link_name = None\<rparr>)]\<rparr>"

definition demo_ctx :: ctx where
  "demo_ctx =
     \<lparr>gui_id = 0, col_id = 1,
      user_params =
        [(''collision_margin'', 0), (''lbr_iiwa_joint1'', 1), (''lbr_iiwa_joint2'', 2),
         (''lbr_iiwa_joint3'', 3), (''lbr_iiwa_joint4'', 4), (''lbr_iiwa_joint5'', 5),
         (''lbr_iiwa_joint6'', 6), (''lbr_iiwa_joint7'', 7)],
      bodies = demo_bodies, collision_bodies = demo_bodies, col_detector = demo_detector,
      robot_id = 1\<rparr>"

definition demo_scene :: "client_id \<Rightarrow> call list" where
  "demo_scene c =
     [SetAdditionalSearchPath ''pybullet_data'' c,
      LoadURDF ''plane.urdf'' [0, 0, 0] True c,
      LoadURDF ''kuka_iiwa/model.urdf'' [0, 0, 0] True c,
      LoadURDF ''cube.urdf'' [1, 1, 0.5] True c,
      LoadURDF ''cube.urdf'' [-1, -1, 0.5] True c,
      LoadURDF ''cube.urdf'' [1, -1, 0.5] True c]"

definition demo_sliders :: "call list" where
  "demo_sliders =
     [AddUserDebugParameter ''collision_margin'' 0 0.2 0.01 0,
      AddUserDebugParameter ''lbr_iiwa_joint1'' (- 2 * pi) (2 * pi) 0 0,
      AddUserDebugParameter ''lbr_iiwa_joint2'' (- 2 * pi) (2 * pi) 0 0,
      AddUserDebugParameter ''lbr_iiwa_joint3'' (- 2 * pi) (2 * pi) 0 0,
      AddUserDebugParameter ''lbr_iiwa_joint4'' (- 2 * pi) (2 * pi) 0 0,
      AddUserDebugParameter ''lbr_iiwa_joint5'' (- 2 * pi) (2 * pi) 0 0,
      AddUserDebugParameter ''lbr_iiwa_joint6'' (- 2 * pi) (2 * pi) 0 0,
      AddUserDebugParameter ''lbr_iiwa_joint7'' (- 2 * pi) (2 * pi) 0 0]"

definition demo_setup :: "call list" where
  "demo_setup = [Connect GUI, Connect DIRECT] @ demo_sliders @ demo_scene 0 @ demo_scene 1"

text \<open>One iteration after the setup, with the sliders untouched.\<close>

definition demo_q :: "real list" where
  "demo_q = [0, 0, 0, 0, 0, 0, 0]"

definition demo_sense :: "call list" where
  "demo_sense =
     [ReadUserDebugParameter 1, ReadUserDebugParameter 2, ReadUserDebugParameter 3,
      ReadUserDebugParameter 4, ReadUserDebugParameter 5, ReadUserDebugParameter 6,
      ReadUserDebugParameter 7, ComputeDistances demo_detector demo_q,
      ReadUserDebugParameter 0, InCollision demo_detector demo_q 0.01]"

definition demo_apply :: "call list" where
  "demo_apply =
     [GetNumJoints 1 0, ResetJointState 1 0 0 0, ResetJointState 1 1 0 0,
      ResetJointState 1 2 0 0, ResetJointState 1 3 0 0, ResetJointState 1 4 0 0,
      ResetJointState 1 5 0 0, ResetJointState 1 6 0 0]"

definition demo_warn :: "call list" where
  "demo_warn = [AddUserDebugText ''Avoiding collision'' [0, 0, 1.5] [1, 0, 0] 2 0.2]"

definition demo_finish :: "real list \<Rightarrow> call list" where
  "demo_finish ds = [Print ''Distance to obstacles = '' ds, StepSimulation 0]"

definition clear_ds :: "real list" where
  "clear_ds = [1.3, 1.2, 1.1, 1]"

definition close_ds :: "real list" where
  "close_ds = [1.3, 0.005, 1.1, 1]"






section \<open>Running computations\<close>

lemma pbind_Inr:
  "pbind m f tr = (Inr v, tr') \<longleftrightarrow> (\<exists>a t. m tr = (Inr a, t) \<and> f a t = (Inr v, tr'))"
  by (auto simp: pbind_def split: prod.splits sum.splits)

lemma invoke_Inr:
  "invoke env ret c tr = (Inr v, tr') \<longleftrightarrow> raises env tr c = None \<and> v = ret tr c \<and> tr' = tr @ [c]"
  by (auto simp: invoke_def split: option.splits)

lemma preturn_Inr: "preturn a tr = (Inr v, tr') \<longleftrightarrow> v = a \<and> tr' = tr"
  by (auto simp: preturn_def)

lemma praise_Inr: "praise e tr = (Inr v, tr') \<longleftrightarrow> False"
  by (simp add: praise_def)

lemma dict_getitem_Inr:
  "dict_getitem d k tr = (Inr v, tr') \<longleftrightarrow> map_of d k = Some v \<and> tr' = tr"
  by (auto simp: dict_getitem_def preturn_def praise_def split: option.splits)

lemma array_getitem_Inr:
  "array_getitem a i tr = (Inr v, tr') \<longleftrightarrow> i < length a \<and> v = a ! i \<and> tr' = tr"
  by (auto simp: array_getitem_def preturn_def praise_def)

lemmas pyb_defs = connect_def setAdditionalSearchPath_def loadURDF_def addUserDebugParameter_def
  readUserDebugParameter_def getNumJoints_def resetJointState_def addUserDebugText_def
  stepSimulation_def print_def compute_distances_def

lemmas run_Inr = pbind_Inr invoke_Inr preturn_Inr praise_Inr dict_getitem_Inr array_getitem_Inr

lemmas demo_defs = demo_sim_def pbind_def invoke_def preturn_def praise_def dict_getitem_def
  array_getitem_def no_value_def

subsection \<open>Rules for the trace predicates\<close>

lemma pbind_left: "fst (m tr) = Inl e \<Longrightarrow> pbind m f tr = (Inl e, snd (m tr))"
  by (cases "m tr") (simp add: pbind_def)

lemma pbind_right: "fst (m tr) = Inr a \<Longrightarrow> pbind m f tr = f a (snd (m tr))"
  by (cases "m tr") (simp add: pbind_def)

lemma only_calls_pbind:
  assumes "only_calls P m" and "\<And>a. only_calls P (f a)"
  shows "only_calls P (pbind m f)"
  unfolding only_calls_def
proof
  fix tr
  from assms(1) obtain n1 where n1: "snd (m tr) = tr @ n1" "list_all P n1"
    unfolding only_calls_def by blast
  show "\<exists>new. snd (pbind m f tr) = tr @ new \<and> list_all P new"
  proof (cases "fst (m tr)")
    case (Inl e)
    with n1 have "snd (pbind m f tr) = tr @ n1"
      by (simp add: pbind_left)
    with n1 show ?thesis by blast
  next
    case (Inr a)
    from assms(2) [of a] obtain n2 where n2: "snd (f a (tr @ n1)) = (tr @ n1) @ n2" "list_all P n2"
      unfolding only_calls_def by blast
    from Inr n1 n2 have "snd (pbind m f tr) = tr @ (n1 @ n2)"
      by (simp add: pbind_right)
    moreover from n1 n2 have "list_all P (n1 @ n2)" by simp
    ultimately show ?thesis by blast
  qed
qed

lemma only_calls_invoke: "P c \<Longrightarrow> only_calls P (invoke env ret c)"
  by (simp add: only_calls_def invoke_def split: option.splits)

lemma only_calls_pure:
  "only_calls P (preturn a)" "only_calls P (praise e)" "only_calls P (dict_getitem d k)"
  "only_calls P (array_getitem st i)"
  by (simp_all add: only_calls_def preturn_def praise_def dict_getitem_def array_getitem_def
      split: option.splits)

lemma only_calls_if:
  "only_calls P m1 \<Longrightarrow> only_calls P m2 \<Longrightarrow> only_calls P (if b then m1 else m2)"
  by simp




lemma never_raises_pbind:
  assumes "never_raises e m" and "\<And>a tr tr'. m tr = (Inr a, tr') \<Longrightarrow> never_raises e (f a)"
  shows "never_raises e (pbind m f)"
  unfolding never_raises_def
proof
  fix tr
  show "fst (pbind m f tr) \<noteq> Inl e"
  proof (cases "fst (m tr)")
    case (Inl e')
    with assms(1) show ?thesis
      by (auto simp: pbind_left never_raises_def)
  next
    case (Inr a)
    then have "m tr = (Inr a, snd (m tr))"
      by (cases "m tr") simp
    from assms(2) [OF this] Inr show ?thesis
      by (simp add: pbind_right never_raises_def)
  qed
qed

lemma never_raises_invoke: "(\<And>msg. e \<noteq> LibraryError msg) \<Longrightarrow> never_raises e (invoke env ret c)"
  by (auto simp: never_raises_def invoke_def split: option.splits)

lemma never_raises_pure:
  "never_raises e (preturn a)"
  "map_of d k \<noteq> None \<Longrightarrow> never_raises e (dict_getitem d k)"
  "i < length st \<Longrightarrow> never_raises e (array_getitem st i)"
  "never_raises (KeyError k') (array_getitem st i)"
  "never_raises IndexError (dict_getitem d k)"
  by (auto simp: never_raises_def preturn_def praise_def dict_getitem_def array_getitem_def
      split: option.splits)

lemma pbind_Inl:
  "pbind m f tr = (Inl e, tr') \<longleftrightarrow>
     m tr = (Inl e, tr') \<or> (\<exists>a t. m tr = (Inr a, t) \<and> f a t = (Inl e, tr'))"
  by (cases "m tr") (auto simp: pbind_def split: sum.splits)

section \<open>load_environment\<close>

lemma load_environment_Inr:
  assumes "load_environment env c tr = (Inr b, tr')"
  shows "\<exists>new. tr' = tr @ new \<and>
      new = [SetAdditionalSearchPath (getDataPath env) c,
             LoadURDF ''plane.urdf'' [0, 0, 0] True c,
             LoadURDF ''kuka_iiwa/model.urdf'' [0, 0, 0] True c,
             LoadURDF ''cube.urdf'' [1, 1, 0.5] True c,
             LoadURDF ''cube.urdf'' [-1, -1, 0.5] True c,
             LoadURDF ''cube.urdf'' [1, -1, 0.5] True c] \<and>
      b = [(''robot'', returned (ret_int env) tr new 2),
           (''ground'', returned (ret_int env) tr new 1),
           (''cube1'', returned (ret_int env) tr new 3),
           (''cube2'', returned (ret_int env) tr new 4),
           (''cube3'', returned (ret_int env) tr new 5)]"
  using assms
  by (auto simp: load_environment_def pyb_defs run_Inr returned_def)

text \<open>
  C7: a call of load_environment that returns has set the search path and loaded exactly
  five bodies into the given session, in this order: the plane at the origin, the KUKA
  iiwa model at the origin, and cube.urdf at [1,1,0.5], [-1,-1,0.5] and [1,-1,0.5], each
  with useFixedBase=True; the mapping it returns has exactly the keys robot, ground,
  cube1, cube2, cube3, each bound to the identifier the loading call of that body returned.
\<close>

theorem load_environment_scene:
  assumes "load_environment env c tr = (Inr b, tr')"
  shows "tr' = tr @
           [SetAdditionalSearchPath (getDataPath env) c,
            LoadURDF ''plane.urdf'' [0, 0, 0] True c,
            LoadURDF ''kuka_iiwa/model.urdf'' [0, 0, 0] True c,
            LoadURDF ''cube.urdf'' [1, 1, 0.5] True c,
            LoadURDF ''cube.urdf'' [-1, -1, 0.5] True c,
            LoadURDF ''cube.urdf'' [1, -1, 0.5] True c] \<and>
         length (filter (is_load_on c) (drop (length tr) tr')) = 5 \<and>
         map fst b = [''robot'', ''ground'', ''cube1'', ''cube2'', ''cube3''] \<and>
         map_of b ''ground'' = Some (returned (ret_int env) tr (drop (length tr) tr') 1) \<and>
         map_of b ''robot'' = Some (returned (ret_int env) tr (drop (length tr) tr') 2) \<and>
         map_of b ''cube1'' = Some (returned (ret_int env) tr (drop (length tr) tr') 3) \<and>
         map_of b ''cube2'' = Some (returned (ret_int env) tr (drop (length tr) tr') 4) \<and>
         map_of b ''cube3'' = Some (returned (ret_int env) tr (drop (length tr) tr') 5)"
  using load_environment_Inr [OF assms] by auto

theorem load_environment_scene_witness:
  "load_environment (demo_sim []) 0 [] =
     (Inr [(''robot'', 1), (''ground'', 0), (''cube1'', 2), (''cube2'', 3), (''cube3'', 4)],
      [SetAdditionalSearchPath ''pybullet_data'' 0,
       LoadURDF ''plane.urdf'' [0, 0, 0] True 0,
       LoadURDF ''kuka_iiwa/model.urdf'' [0, 0, 0] True 0,
       LoadURDF ''cube.urdf'' [1, 1, 0.5] True 0,
       LoadURDF ''cube.urdf'' [-1, -1, 0.5] True 0,
       LoadURDF ''cube.urdf'' [1, -1, 0.5] True 0])"
proof -
  have run: "load_environment (demo_sim []) 0 [] =
     (Inr [(''robot'', 1), (''ground'', 0), (''cube1'', 2), (''cube2'', 3), (''cube3'', 4)],
      [SetAdditionalSearchPath ''pybullet_data'' 0,
       LoadURDF ''plane.urdf'' [0, 0, 0] True 0,
       LoadURDF ''kuka_iiwa/model.urdf'' [0, 0, 0] True 0,
       LoadURDF ''cube.urdf'' [1, 1, 0.5] True 0,
       LoadURDF ''cube.urdf'' [-1, -1, 0.5] True 0,
       LoadURDF ''cube.urdf'' [1, -1, 0.5] True 0])"
    by (simp add: load_environment_def pyb_defs demo_defs)
  from load_environment_scene [OF run] run show ?thesis by simp
qed

section \<open>create_user_debug_params\<close>

lemma create_user_debug_params_Inr:
  assumes "create_user_debug_params env g tr = (Inr ps, tr')"
  shows "\<exists>new. tr' = tr @ new \<and>
      new = [AddUserDebugParameter ''collision_margin'' 0 0.2 0.01 g,
             AddUserDebugParameter ''lbr_iiwa_joint1'' (- 2 * pi) (2 * pi) 0 g,
             AddUserDebugParameter ''lbr_iiwa_joint2'' (- 2 * pi) (2 * pi) 0 g,
             AddUserDebugParameter ''lbr_iiwa_joint3'' (- 2 * pi) (2 * pi) 0 g,
             AddUserDebugParameter ''lbr_iiwa_joint4'' (- 2 * pi) (2 * pi) 0 g,
             AddUserDebugParameter ''lbr_iiwa_joint5'' (- 2 * pi) (2 * pi) 0 g,
             AddUserDebugParameter ''lbr_iiwa_joint6'' (- 2 * pi) (2 * pi) 0 g,
             AddUserDebugParameter ''lbr_iiwa_joint7'' (- 2 * pi) (2 * pi) 0 g] \<and>
      ps = [(''collision_margin'', returned (ret_int env) tr new 0),
            (''lbr_iiwa_joint1'', returned (ret_int env) tr new 1),
            (''lbr_iiwa_joint2'', returned (ret_int env) tr new 2),
            (''lbr_iiwa_joint3'', returned (ret_int env) tr new 3),
            (''lbr_iiwa_joint4'', returned (ret_int env) tr new 4),
            (''lbr_iiwa_joint5'', returned (ret_int env) tr new 5),
            (''lbr_iiwa_joint6'', returned (ret_int env) tr new 6),
            (''lbr_iiwa_joint7'', returned (ret_int env) tr new 7)]"
  using assms
  by (auto simp: create_user_debug_params_def pyb_defs run_Inr returned_def)

section \<open>update_robot_state\<close>

lemma reset_joints_Inr:
  "reset_joints env r st c js tr = (Inr u, tr') \<Longrightarrow>
     (\<forall>j\<in>set js. j < length st) \<and> tr' = tr @ map (\<lambda>j. ResetJointState r j (st ! j) c) js"
proof (induction js arbitrary: tr)
  case Nil
  then show ?case by (simp add: run_Inr)
next
  case (Cons j js)
  from Cons.prems have j: "j < length st"
    and rest: "reset_joints env r st c js (tr @ [ResetJointState r j (st ! j) c]) = (Inr u, tr')"
    by (auto simp: run_Inr pyb_defs)
  from Cons.IH [OF rest] j show ?case by simp
qed

lemma update_robot_state_Inr:
  assumes "update_robot_state env r st c tr = (Inr u, tr')"
  shows "nat (ret_int env tr (GetNumJoints r c)) \<le> length st \<and>
         tr' = tr @ GetNumJoints r c #
                 map (\<lambda>j. ResetJointState r j (st ! j) c) [0..<nat (ret_int env tr (GetNumJoints r c))]"
proof -
  from assms obtain t where
    t: "t = tr @ [GetNumJoints r c]" "raises env tr (GetNumJoints r c) = None"
    and rj: "reset_joints env r st c [0..<nat (ret_int env tr (GetNumJoints r c))] t = (Inr u, tr')"
    by (auto simp: update_robot_state_def pyb_defs run_Inr)
  from reset_joints_Inr [OF rj] t show ?thesis
    by (auto simp: not_less [symmetric])
qed

section \<open>main: the setup\<close>

lemma main_setup_Inr:
  assumes "main_setup env tr = (Inr c, tr')"
  shows "\<exists>t2 t3 t4. 
      gui_id c = ret_int env tr (Connect GUI) \<and>
      col_id c = ret_int env (tr @ [Connect GUI]) (Connect DIRECT) \<and>
      t2 = tr @ [Connect GUI, Connect DIRECT] \<and>
      create_user_debug_params env (gui_id c) t2 = (Inr (user_params c), t3) \<and>
      load_environment env (gui_id c) t3 = (Inr (bodies c), t4) \<and>
      load_environment env (col_id c) t4 = (Inr (collision_bodies c), tr') \<and>
      col_detector c =
        \<lparr>det_client = col_id c, det_bodies = collision_bodies c,
         det_pairs =
           [(\<lparr>body_name = ''robot'', link_name = Some ''lbr_iiwa_link_7''\<rparr>,
             \<lparr>body_name = ''ground'', link_name = None\<rparr>),
            (\<lparr>body_name = ''robot'', link_name = Some ''lbr_iiwa_link_7''\<rparr>,
             \<lparr>body_name = ''cube1'', link_name = None\<rparr>),
            (\<lparr>body_name = ''robot'', link_name = Some ''lbr_iiwa_link_7''\<rparr>,
             \<lparr>body_name = ''cube2'', link_name = None\<rparr>),
            (\<lparr>body_name = ''robot'', link_name = Some ''lbr_iiwa_link_7''\<rparr>,
             \<lparr>body_name = ''cube3'', link_name = None\<rparr>)]\<rparr> \<and>
      map_of (bodies c) ''robot'' = Some (robot_id c)"
  using assms
  by (auto simp: main_setup_def connect_def run_Inr Let_def new_NamedCollisionObject_def
      new_CollisionDetector_def)


lemma demo_setup_run: "main_setup (demo_sim ds) [] = (Inr demo_ctx, demo_setup)"
  by (simp add: main_setup_def create_user_debug_params_def load_environment_def pyb_defs
      demo_defs demo_ctx_def demo_setup_def demo_scene_def demo_sliders_def demo_bodies_def
      demo_detector_def new_NamedCollisionObject_def new_CollisionDetector_def Let_def)

section \<open>main: one iteration of the loop\<close>

lemma upt_0_7: "[0..<7] = [0, 1, 2, 3, 4, 5, 6]"
  by code_simp

lemma read_slider_Inr:
  "read_slider env ps name tr = (Inr v, tr') \<longleftrightarrow>
     (\<exists>p. map_of ps name = Some p \<and> raises env tr (ReadUserDebugParameter p) = None \<and>
          v = ret_float env tr (ReadUserDebugParameter p) \<and> tr' = tr @ [ReadUserDebugParameter p])"
  by (auto simp: read_slider_def readUserDebugParameter_def run_Inr)

lemma in_collision_Inr:
  "in_collision env det q margin tr = (Inr b, tr') \<longleftrightarrow>
     raises env tr (InCollision det q margin) = None \<and>
     b = min_distance_below (ret_floats env tr (InCollision det q margin)) margin \<and>
     tr' = tr @ [InCollision det q margin]"
  by (auto simp: in_collision_def run_Inr)

lemma loop_body_Inr:
  assumes "loop_body env c tr = (Inr u, tr')"
  shows "\<exists>p1 p2 p3 p4 p5 p6 p7 pm q d margin ds act new.
      map_of (user_params c) ''lbr_iiwa_joint1'' = Some p1 \<and>
      map_of (user_params c) ''lbr_iiwa_joint2'' = Some p2 \<and>
      map_of (user_params c) ''lbr_iiwa_joint3'' = Some p3 \<and>
      map_of (user_params c) ''lbr_iiwa_joint4'' = Some p4 \<and>
      map_of (user_params c) ''lbr_iiwa_joint5'' = Some p5 \<and>
      map_of (user_params c) ''lbr_iiwa_joint6'' = Some p6 \<and>
      map_of (user_params c) ''lbr_iiwa_joint7'' = Some p7 \<and>
      map_of (user_params c) ''collision_margin'' = Some pm \<and>
      tr' = tr @ new \<and>
      new = [ReadUserDebugParameter p1, ReadUserDebugParameter p2, ReadUserDebugParameter p3,
             ReadUserDebugParameter p4, ReadUserDebugParameter p5, ReadUserDebugParameter p6,
             ReadUserDebugParameter p7, ComputeDistances (col_detector c) q,
             ReadUserDebugParameter pm, InCollision (col_detector c) q margin] @ act @
            [Print ''Distance to obstacles = '' d, StepSimulation (gui_id c)] \<and>
      q = map (returned (ret_float env) tr new) [0..<7] \<and>
      d = returned (ret_floats env) tr new 7 \<and>
      margin = returned (ret_float env) tr new 8 \<and>
      ds = returned (ret_floats env) tr new 9 \<and>
      (if min_distance_below ds margin
       then act = [AddUserDebugText ''Avoiding collision'' [0, 0, 1.5] [1, 0, 0] 2 0.2]
       else nat (returned (ret_int env) tr new 10) \<le> 7 \<and>
            act = GetNumJoints (robot_id c) (gui_id c) #
                  map (\<lambda>j. ResetJointState (robot_id c) j (q ! j) (gui_id c))
                    [0..<nat (returned (ret_int env) tr new 10)])"
proof -
  from assms obtain q1 q2 q3 q4 q5 q6 q7 d margin in_col u11 u12 t1 t2 t3 t4 t5 t6 t7 t8 t9 t10 t11 t12
    where s1: "read_slider env (user_params c) ''lbr_iiwa_joint1'' tr = (Inr q1, t1)"
      and s2: "read_slider env (user_params c) ''lbr_iiwa_joint2'' t1 = (Inr q2, t2)"
      and s3: "read_slider env (user_params c) ''lbr_iiwa_joint3'' t2 = (Inr q3, t3)"
      and s4: "read_slider env (user_params c) ''lbr_iiwa_joint4'' t3 = (Inr q4, t4)"
      and s5: "read_slider env (user_params c) ''lbr_iiwa_joint5'' t4 = (Inr q5, t5)"
      and s6: "read_slider env (user_params c) ''lbr_iiwa_joint6'' t5 = (Inr q6, t6)"
      and s7: "read_slider env (user_params c) ''lbr_iiwa_joint7'' t6 = (Inr q7, t7)"
      and s8: "compute_distances env (col_detector c) [q1, q2, q3, q4, q5, q6, q7] t7 = (Inr d, t8)"
      and s9: "read_slider env (user_params c) ''collision_margin'' t8 = (Inr margin, t9)"
      and s10: "in_collision env (col_detector c) [q1, q2, q3, q4, q5, q6, q7] margin t9
                = (Inr in_col, t10)"
      and s11: "(if \<not> in_col
                 then update_robot_state env (robot_id c) [q1, q2, q3, q4, q5, q6, q7] (gui_id c)
                 else addUserDebugText env ''Avoiding collision'' [0, 0, 1.5] [1, 0, 0] 2 0.2) t10
                = (Inr u11, t11)"
      and s12: "print env ''Distance to obstacles = '' d t11 = (Inr u12, t12)"
      and s13: "stepSimulation env (gui_id c) t12 = (Inr u, tr')"
    unfolding loop_body_def Let_def pbind_Inr by (elim exE conjE) (rule that; assumption)
  from s1 s2 s3 s4 s5 s6 s7 s9 obtain p1 p2 p3 p4 p5 p6 p7 pm where
    ps: "map_of (user_params c) ''lbr_iiwa_joint1'' = Some p1"
      "map_of (user_params c) ''lbr_iiwa_joint2'' = Some p2"
      "map_of (user_params c) ''lbr_iiwa_joint3'' = Some p3"
      "map_of (user_params c) ''lbr_iiwa_joint4'' = Some p4"
      "map_of (user_params c) ''lbr_iiwa_joint5'' = Some p5"
      "map_of (user_params c) ''lbr_iiwa_joint6'' = Some p6"
      "map_of (user_params c) ''lbr_iiwa_joint7'' = Some p7"
      "map_of (user_params c) ''collision_margin'' = Some pm"
    and qs: "q1 = ret_float env tr (ReadUserDebugParameter p1)"
      "q2 = ret_float env t1 (ReadUserDebugParameter p2)"
      "q3 = ret_float env t2 (ReadUserDebugParameter p3)"
      "q4 = ret_float env t3 (ReadUserDebugParameter p4)"
      "q5 = ret_float env t4 (ReadUserDebugParameter p5)"
      "q6 = ret_float env t5 (ReadUserDebugParameter p6)"
      "q7 = ret_float env t6 (ReadUserDebugParameter p7)"
      "margin = ret_float env t8 (ReadUserDebugParameter pm)"
    and ts: "t1 = tr @ [ReadUserDebugParameter p1]" "t2 = t1 @ [ReadUserDebugParameter p2]"
      "t3 = t2 @ [ReadUserDebugParameter p3]" "t4 = t3 @ [ReadUserDebugParameter p4]"
      "t5 = t4 @ [ReadUserDebugParameter p5]" "t6 = t5 @ [ReadUserDebugParameter p6]"
      "t7 = t6 @ [ReadUserDebugParameter p7]" "t9 = t8 @ [ReadUserDebugParameter pm]"
    unfolding read_slider_Inr by blast
  define q where "q = [q1, q2, q3, q4, q5, q6, q7]"
  from s8 have d: "d = ret_floats env t7 (ComputeDistances (col_detector c) q)"
    and t8: "t8 = t7 @ [ComputeDistances (col_detector c) q]"
    by (simp_all add: compute_distances_def invoke_Inr q_def)
  define ds where "ds = ret_floats env t9 (InCollision (col_detector c) q margin)"
  from s10 have in_col: "in_col = min_distance_below ds margin"
    and t10: "t10 = t9 @ [InCollision (col_detector c) q margin]"
    by (simp_all add: in_collision_Inr q_def ds_def)
  from s12 s13 have fin: "tr' = t11 @ [Print ''Distance to obstacles = '' d, StepSimulation (gui_id c)]"
    by (simp add: print_def stepSimulation_def invoke_Inr)
  have pre: "t10 = tr @ [ReadUserDebugParameter p1, ReadUserDebugParameter p2, ReadUserDebugParameter p3,
             ReadUserDebugParameter p4, ReadUserDebugParameter p5, ReadUserDebugParameter p6,
             ReadUserDebugParameter p7, ComputeDistances (col_detector c) q,
             ReadUserDebugParameter pm, InCollision (col_detector c) q margin]"
    using ts t8 t10 by simp
  define n where "n = ret_int env t10 (GetNumJoints (robot_id c) (gui_id c))"
  obtain act where t11: "t11 = t10 @ act"
    and act: "if min_distance_below ds margin
       then act = [AddUserDebugText ''Avoiding collision'' [0, 0, 1.5] [1, 0, 0] 2 0.2]
       else nat n \<le> 7 \<and>
            act = GetNumJoints (robot_id c) (gui_id c) #
                  map (\<lambda>j. ResetJointState (robot_id c) j (q ! j) (gui_id c)) [0..<nat n]"
  proof (cases "min_distance_below ds margin")
    case True
    with s11 in_col have "t11 = t10 @ [AddUserDebugText ''Avoiding collision'' [0, 0, 1.5] [1, 0, 0] 2 0.2]"
      by (simp add: addUserDebugText_def invoke_Inr)
    with True that show ?thesis by simp
  next
    case False
    with s11 in_col have "update_robot_state env (robot_id c) q (gui_id c) t10 = (Inr u11, t11)"
      by (simp add: q_def)
    from update_robot_state_Inr [OF this] False that show ?thesis
      by (simp add: q_def n_def)
  qed
  define new where "new =
            [ReadUserDebugParameter p1, ReadUserDebugParameter p2, ReadUserDebugParameter p3,
             ReadUserDebugParameter p4, ReadUserDebugParameter p5, ReadUserDebugParameter p6,
             ReadUserDebugParameter p7, ComputeDistances (col_detector c) q,
             ReadUserDebugParameter pm, InCollision (col_detector c) q margin] @ act @
            [Print ''Distance to obstacles = '' d, StepSimulation (gui_id c)]"
  have new: "tr' = tr @ new"
    using fin t11 pre by (simp add: new_def)
  have r0: "returned (ret_float env) tr new 0 = q1" "returned (ret_float env) tr new 1 = q2"
    "returned (ret_float env) tr new 2 = q3" "returned (ret_float env) tr new 3 = q4"
    "returned (ret_float env) tr new 4 = q5" "returned (ret_float env) tr new 5 = q6"
    "returned (ret_float env) tr new 6 = q7"
    unfolding qs ts by (simp_all add: returned_def new_def)
  have rq: "q = map (returned (ret_float env) tr new) [0..<7]"
    unfolding upt_0_7 q_def by (simp only: list.map r0)
  have rd: "d = returned (ret_floats env) tr new 7"
    unfolding d ts by (simp add: returned_def new_def)
  have rm: "margin = returned (ret_float env) tr new 8"
    unfolding qs(8) t8 ts by (simp add: returned_def new_def)
  have rds: "ds = returned (ret_floats env) tr new 9"
    unfolding ds_def ts(8) t8 ts by (simp add: returned_def new_def)
  have rn: "returned (ret_int env) tr new 10 = n" if "\<not> min_distance_below ds margin"
  proof -
    from act that have "new ! 10 = GetNumJoints (robot_id c) (gui_id c)"
      by (simp add: new_def)
    moreover have "tr @ take 10 new = t10"
      unfolding pre by (simp add: new_def)
    ultimately show ?thesis
      by (simp add: returned_def n_def)
  qed
  have branch: "if min_distance_below ds margin
       then act = [AddUserDebugText ''Avoiding collision'' [0, 0, 1.5] [1, 0, 0] 2 0.2]
       else nat (returned (ret_int env) tr new 10) \<le> 7 \<and>
            act = GetNumJoints (robot_id c) (gui_id c) #
                  map (\<lambda>j. ResetJointState (robot_id c) j (q ! j) (gui_id c))
                    [0..<nat (returned (ret_int env) tr new 10)]"
  proof (cases "min_distance_below ds margin")
    case True
    with act show ?thesis by simp
  next
    case False
    with act rn [OF False] show ?thesis by simp
  qed
  show ?thesis
    by (rule exI [of _ p1], rule exI [of _ p2], rule exI [of _ p3], rule exI [of _ p4],
        rule exI [of _ p5], rule exI [of _ p6], rule exI [of _ p7], rule exI [of _ pm],
        rule exI [of _ q], rule exI [of _ d], rule exI [of _ margin], rule exI [of _ ds],
        rule exI [of _ act], rule exI [of _ new], intro conjI)
      (fact ps new new_def rq rd rm rds branch)+
qed

lemmas demo_loop_defs = loop_body_def read_slider_def in_collision_def update_robot_state_def
  pyb_defs demo_defs demo_ctx_def demo_sense_def demo_apply_def demo_warn_def demo_finish_def
  demo_q_def min_distance_below_def Let_def upt_0_7

lemma demo_loop_clear:
  "loop_body (demo_sim clear_ds) demo_ctx tr =
     (Inr (), tr @ demo_sense @ demo_apply @ demo_finish clear_ds)"
  by (simp add: demo_loop_defs clear_ds_def)

lemma demo_loop_close:
  "loop_body (demo_sim close_ds) demo_ctx tr =
     (Inr (), tr @ demo_sense @ demo_warn @ demo_finish close_ds)"
  by (simp add: demo_loop_defs close_ds_def)


lemma no_text_resets: "\<not> list_ex is_debug_text (map (\<lambda>j. ResetJointState r j (f j) g) js)"
  by (induction js) simp_all

lemma completed_branch:
  assumes "loop_body env c tr = (Inr u, tr')"
  shows "\<exists>new pm q margin ds.
      tr' = tr @ new \<and>
      map_of (user_params c) ''collision_margin'' = Some pm \<and>
      new ! 8 = ReadUserDebugParameter pm \<and>
      margin = returned (ret_float env) tr new 8 \<and>
      q = map (returned (ret_float env) tr new) [0..<7] \<and>
      new ! 9 = InCollision (col_detector c) q margin \<and>
      ds = returned (ret_floats env) tr new 9 \<and>
      (if min_distance_below ds margin
       then drop 10 new =
              [AddUserDebugText ''Avoiding collision'' [0, 0, 1.5] [1, 0, 0] 2 0.2,
               Print ''Distance to obstacles = '' (returned (ret_floats env) tr new 7),
               StepSimulation (gui_id c)] \<and>
            \<not> list_ex is_joint_reset new
       else drop 10 new =
              GetNumJoints (robot_id c) (gui_id c) #
              map (\<lambda>j. ResetJointState (robot_id c) j (q ! j) (gui_id c))
                [0..<nat (returned (ret_int env) tr new 10)] @
              [Print ''Distance to obstacles = '' (returned (ret_floats env) tr new 7),
               StepSimulation (gui_id c)] \<and>
            nat (returned (ret_int env) tr new 10) \<le> length q \<and>
            \<not> list_ex is_debug_text new)"
proof -
  from loop_body_Inr [OF assms] obtain p1 p2 p3 p4 p5 p6 p7 pm q d margin ds act new where
    pm: "map_of (user_params c) ''collision_margin'' = Some pm"
    and tr': "tr' = tr @ new"
    and new: "new = [ReadUserDebugParameter p1, ReadUserDebugParameter p2, ReadUserDebugParameter p3,
             ReadUserDebugParameter p4, ReadUserDebugParameter p5, ReadUserDebugParameter p6,
             ReadUserDebugParameter p7, ComputeDistances (col_detector c) q,
             ReadUserDebugParameter pm, InCollision (col_detector c) q margin] @ act @
            [Print ''Distance to obstacles = '' d, StepSimulation (gui_id c)]"
    and q: "q = map (returned (ret_float env) tr new) [0..<7]"
    and d: "d = returned (ret_floats env) tr new 7"
    and margin: "margin = returned (ret_float env) tr new 8"
    and ds: "ds = returned (ret_floats env) tr new 9"
    and act: "if min_distance_below ds margin
       then act = [AddUserDebugText ''Avoiding collision'' [0, 0, 1.5] [1, 0, 0] 2 0.2]
       else nat (returned (ret_int env) tr new 10) \<le> 7 \<and>
            act = GetNumJoints (robot_id c) (gui_id c) #
                  map (\<lambda>j. ResetJointState (robot_id c) j (q ! j) (gui_id c))
                    [0..<nat (returned (ret_int env) tr new 10)]"
    by blast
  have lq: "length q = 7"
    by (subst q) simp
  have n8: "new ! 8 = ReadUserDebugParameter pm"
    and n9: "new ! 9 = InCollision (col_detector c) q margin"
    and d10: "drop 10 new = act @ [Print ''Distance to obstacles = '' d, StepSimulation (gui_id c)]"
    by (subst new, simp)+
  have branch: "if min_distance_below ds margin
       then drop 10 new =
              [AddUserDebugText ''Avoiding collision'' [0, 0, 1.5] [1, 0, 0] 2 0.2,
               Print ''Distance to obstacles = '' d, StepSimulation (gui_id c)] \<and>
            \<not> list_ex is_joint_reset new
       else drop 10 new =
              GetNumJoints (robot_id c) (gui_id c) #
              map (\<lambda>j. ResetJointState (robot_id c) j (q ! j) (gui_id c))
                [0..<nat (returned (ret_int env) tr new 10)] @
              [Print ''Distance to obstacles = '' d, StepSimulation (gui_id c)] \<and>
            nat (returned (ret_int env) tr new 10) \<le> length q \<and>
            \<not> list_ex is_debug_text new"
  proof (cases "min_distance_below ds margin")
    case True
    with act have a: "act = [AddUserDebugText ''Avoiding collision'' [0, 0, 1.5] [1, 0, 0] 2 0.2]"
      by simp
    have "\<not> list_ex is_joint_reset new"
      by (subst new) (simp add: a)
    with True d10 a show ?thesis by simp
  next
    case False
    with act have n: "nat (returned (ret_int env) tr new 10) \<le> 7"
      and a: "act = GetNumJoints (robot_id c) (gui_id c) #
                  map (\<lambda>j. ResetJointState (robot_id c) j (q ! j) (gui_id c))
                    [0..<nat (returned (ret_int env) tr new 10)]"
      by simp_all
    have "\<not> list_ex is_debug_text act"
      by (subst a) (simp add: no_text_resets)
    then have "\<not> list_ex is_debug_text new"
      by (subst new) simp
    moreover have "drop 10 new =
              GetNumJoints (robot_id c) (gui_id c) #
              map (\<lambda>j. ResetJointState (robot_id c) j (q ! j) (gui_id c))
                [0..<nat (returned (ret_int env) tr new 10)] @
              [Print ''Distance to obstacles = '' d, StepSimulation (gui_id c)]"
      by (subst d10, subst a) simp
    ultimately show ?thesis
      using False n lq by simp
  qed
  show ?thesis
    by (rule exI [of _ new], rule exI [of _ pm], rule exI [of _ q], rule exI [of _ margin],
        rule exI [of _ ds], intro conjI)
      (fact tr' pm n8 margin q n9 ds branch [unfolded d])+
qed


lemma no_step_resets: "\<not> list_ex is_step (map (\<lambda>j. ResetJointState r j (f j) g) js)"
  "filter is_slider_read (map (\<lambda>j. ResetJointState r j (f j) g) js) = []"
  by (induction js) simp_all

text \<open>
  C3, as amended: an iteration that completes issues its calls in exactly this order: the
  seven joint sliders are read, the distances are queried with the seven values read,
  the margin slider is read, the collision flag is queried with the same values and the
  margin read; then, if the flag is clear (the minimum of the distances of the check is
  not below the margin), update_robot_state runs on the visualized session with these
  values, and otherwise the warning text is added; then the distances returned by the
  distance query are printed and the visualized simulation is stepped. In both branches
  the iteration steps exactly once, as its last call.
\<close>

theorem loop_order:
  assumes "loop_body env c tr = (Inr u, tr')"
  shows "\<exists>p1 p2 p3 p4 p5 p6 p7 pm q d margin ds act new.
      map (map_of (user_params c))
        [''lbr_iiwa_joint1'', ''lbr_iiwa_joint2'', ''lbr_iiwa_joint3'', ''lbr_iiwa_joint4'',
         ''lbr_iiwa_joint5'', ''lbr_iiwa_joint6'', ''lbr_iiwa_joint7'', ''collision_margin''] =
        map Some [p1, p2, p3, p4, p5, p6, p7, pm] \<and>
      tr' = tr @ new \<and>
      new = map ReadUserDebugParameter [p1, p2, p3, p4, p5, p6, p7] @
            [ComputeDistances (col_detector c) q,
             ReadUserDebugParameter pm,
             InCollision (col_detector c) q margin] @
            act @
            [Print ''Distance to obstacles = '' d, StepSimulation (gui_id c)] \<and>
      q = map (returned (ret_float env) tr new) [0..<7] \<and>
      d = returned (ret_floats env) tr new 7 \<and>
      margin = returned (ret_float env) tr new 8 \<and>
      ds = returned (ret_floats env) tr new 9 \<and>
      (if min_distance_below ds margin
       then act = [AddUserDebugText ''Avoiding collision'' [0, 0, 1.5] [1, 0, 0] 2 0.2]
       else nat (returned (ret_int env) tr new 10) \<le> 7 \<and>
            act = GetNumJoints (robot_id c) (gui_id c) #
                  map (\<lambda>j. ResetJointState (robot_id c) j (q ! j) (gui_id c))
                    [0..<nat (returned (ret_int env) tr new 10)]) \<and>
      filter is_step new = [StepSimulation (gui_id c)] \<and>
      last new = StepSimulation (gui_id c)"
proof -
  from loop_body_Inr [OF assms] obtain p1 p2 p3 p4 p5 p6 p7 pm q d margin ds act new where
    ps: "map_of (user_params c) ''lbr_iiwa_joint1'' = Some p1"
      "map_of (user_params c) ''lbr_iiwa_joint2'' = Some p2"
      "map_of (user_params c) ''lbr_iiwa_joint3'' = Some p3"
      "map_of (user_params c) ''lbr_iiwa_joint4'' = Some p4"
      "map_of (user_params c) ''lbr_iiwa_joint5'' = Some p5"
      "map_of (user_params c) ''lbr_iiwa_joint6'' = Some p6"
      "map_of (user_params c) ''lbr_iiwa_joint7'' = Some p7"
      "map_of (user_params c) ''collision_margin'' = Some pm"
    and tr': "tr' = tr @ new"
    and new: "new = [ReadUserDebugParameter p1, ReadUserDebugParameter p2, ReadUserDebugParameter p3,
             ReadUserDebugParameter p4, ReadUserDebugParameter p5, ReadUserDebugParameter p6,
             ReadUserDebugParameter p7, ComputeDistances (col_detector c) q,
             ReadUserDebugParameter pm, InCollision (col_detector c) q margin] @ act @
            [Print ''Distance to obstacles = '' d, StepSimulation (gui_id c)]"
    and vals: "q = map (returned (ret_float env) tr new) [0..<7]"
      "d = returned (ret_floats env) tr new 7"
      "margin = returned (ret_float env) tr new 8"
      "ds = returned (ret_floats env) tr new 9"
    and act: "if min_distance_below ds margin
       then act = [AddUserDebugText ''Avoiding collision'' [0, 0, 1.5] [1, 0, 0] 2 0.2]
       else nat (returned (ret_int env) tr new 10) \<le> 7 \<and>
            act = GetNumJoints (robot_id c) (gui_id c) #
                  map (\<lambda>j. ResetJointState (robot_id c) j (q ! j) (gui_id c))
                    [0..<nat (returned (ret_int env) tr new 10)]"
    by blast
  have "act = [AddUserDebugText ''Avoiding collision'' [0, 0, 1.5] [1, 0, 0] 2 0.2] \<or>
       (\<exists>n. act = GetNumJoints (robot_id c) (gui_id c) #
                  map (\<lambda>j. ResetJointState (robot_id c) j (q ! j) (gui_id c)) [0..<n])"
    using act by (cases "min_distance_below ds margin") auto
  then have quiet: "\<not> list_ex is_step act"
    by (auto simp: no_step_resets)
  have one: "filter is_step new = [StepSimulation (gui_id c)]"
    using quiet by (subst new) (simp add: list_ex_iff filter_empty_conv)
  have fin: "last new = StepSimulation (gui_id c)"
    by (subst new) simp
  have whole: "new = map ReadUserDebugParameter [p1, p2, p3, p4, p5, p6, p7] @
            [ComputeDistances (col_detector c) q,
             ReadUserDebugParameter pm,
             InCollision (col_detector c) q margin] @
            act @
            [Print ''Distance to obstacles = '' d, StepSimulation (gui_id c)]"
    by (subst new) simp
  have keys: "map (map_of (user_params c))
        [''lbr_iiwa_joint1'', ''lbr_iiwa_joint2'', ''lbr_iiwa_joint3'', ''lbr_iiwa_joint4'',
         ''lbr_iiwa_joint5'', ''lbr_iiwa_joint6'', ''lbr_iiwa_joint7'', ''collision_margin''] =
        map Some [p1, p2, p3, p4, p5, p6, p7, pm]"
    using ps by simp
  show ?thesis
    by (rule exI [of _ p1], rule exI [of _ p2], rule exI [of _ p3], rule exI [of _ p4],
        rule exI [of _ p5], rule exI [of _ p6], rule exI [of _ p7], rule exI [of _ pm],
        rule exI [of _ q], rule exI [of _ d], rule exI [of _ margin], rule exI [of _ ds],
        rule exI [of _ act], rule exI [of _ new], intro conjI)
      (fact keys tr' whole vals act one fin)+
qed

theorem loop_order_witness:
  "loop_body (demo_sim clear_ds) demo_ctx demo_setup =
     (Inr (), demo_setup @ demo_sense @ demo_apply @ demo_finish clear_ds) \<and>
   loop_body (demo_sim close_ds) demo_ctx demo_setup =
     (Inr (), demo_setup @ demo_sense @ demo_warn @ demo_finish close_ds) \<and>
   filter is_step (demo_sense @ demo_apply @ demo_finish clear_ds) = [StepSimulation 0] \<and>
   filter is_step (demo_sense @ demo_warn @ demo_finish close_ds) = [StepSimulation 0] \<and>
   last (demo_sense @ demo_apply @ demo_finish clear_ds) = StepSimulation 0 \<and>
   last (demo_sense @ demo_warn @ demo_finish close_ds) = StepSimulation 0 \<and>
   demo_sense @ demo_apply @ demo_finish clear_ds =
     [ReadUserDebugParameter 1, ReadUserDebugParameter 2, ReadUserDebugParameter 3,
      ReadUserDebugParameter 4, ReadUserDebugParameter 5, ReadUserDebugParameter 6,
      ReadUserDebugParameter 7, ComputeDistances demo_detector [0, 0, 0, 0, 0, 0, 0],
      ReadUserDebugParameter 0, InCollision demo_detector [0, 0, 0, 0, 0, 0, 0] 0.01,
      GetNumJoints 1 0, ResetJointState 1 0 0 0, ResetJointState 1 1 0 0,
      ResetJointState 1 2 0 0, ResetJointState 1 3 0 0, ResetJointState 1 4 0 0,
      ResetJointState 1 5 0 0, ResetJointState 1 6 0 0,
      Print ''Distance to obstacles = '' [1.3, 1.2, 1.1, 1], StepSimulation 0] \<and>
   demo_sense @ demo_warn @ demo_finish close_ds =
     [ReadUserDebugParameter 1, ReadUserDebugParameter 2, ReadUserDebugParameter 3,
      ReadUserDebugParameter 4, ReadUserDebugParameter 5, ReadUserDebugParameter 6,
      ReadUserDebugParameter 7, ComputeDistances demo_detector [0, 0, 0, 0, 0, 0, 0],
      ReadUserDebugParameter 0, InCollision demo_detector [0, 0, 0, 0, 0, 0, 0] 0.01,
      AddUserDebugText ''Avoiding collision'' [0, 0, 1.5] [1, 0, 0] 2 0.2,
      Print ''Distance to obstacles = '' [1.3, 0.005, 1.1, 1], StepSimulation 0]"
proof -
  note clear = demo_loop_clear [of demo_setup] and close = demo_loop_close [of demo_setup]
  from loop_order [OF clear]
  have a: "filter is_step (demo_sense @ demo_apply @ demo_finish clear_ds) = [StepSimulation 0] \<and>
      last (demo_sense @ demo_apply @ demo_finish clear_ds) = StepSimulation 0"
    by (auto simp: demo_ctx_def)
  from loop_order [OF close]
  have b: "filter is_step (demo_sense @ demo_warn @ demo_finish close_ds) = [StepSimulation 0] \<and>
      last (demo_sense @ demo_warn @ demo_finish close_ds) = StepSimulation 0"
    by (auto simp: demo_ctx_def)
  have x: "demo_sense @ demo_apply @ demo_finish clear_ds =
     [ReadUserDebugParameter 1, ReadUserDebugParameter 2, ReadUserDebugParameter 3,
      ReadUserDebugParameter 4, ReadUserDebugParameter 5, ReadUserDebugParameter 6,
      ReadUserDebugParameter 7, ComputeDistances demo_detector [0, 0, 0, 0, 0, 0, 0],
      ReadUserDebugParameter 0, InCollision demo_detector [0, 0, 0, 0, 0, 0, 0] 0.01,
      GetNumJoints 1 0, ResetJointState 1 0 0 0, ResetJointState 1 1 0 0,
      ResetJointState 1 2 0 0, ResetJointState 1 3 0 0, ResetJointState 1 4 0 0,
      ResetJointState 1 5 0 0, ResetJointState 1 6 0 0,
      Print ''Distance to obstacles = '' [1.3, 1.2, 1.1, 1], StepSimulation 0]"
    by (simp add: demo_sense_def demo_apply_def demo_finish_def demo_q_def clear_ds_def)
  have y: "demo_sense @ demo_warn @ demo_finish close_ds =
     [ReadUserDebugParameter 1, ReadUserDebugParameter 2, ReadUserDebugParameter 3,
      ReadUserDebugParameter 4, ReadUserDebugParameter 5, ReadUserDebugParameter 6,
      ReadUserDebugParameter 7, ComputeDistances demo_detector [0, 0, 0, 0, 0, 0, 0],
      ReadUserDebugParameter 0, InCollision demo_detector [0, 0, 0, 0, 0, 0, 0] 0.01,
      AddUserDebugText ''Avoiding collision'' [0, 0, 1.5] [1, 0, 0] 2 0.2,
      Print ''Distance to obstacles = '' [1.3, 0.005, 1.1, 1], StepSimulation 0]"
    by (simp add: demo_sense_def demo_warn_def demo_finish_def demo_q_def close_ds_def)
  from clear close a b x y show ?thesis by blast
qed

text \<open>
  The claim as stated fails: in the iteration after the setup, the distance query is the
  eighth call and the read of the margin slider (slider 0) the ninth, so a slider is read
  after the first query.
\<close>

theorem loop_order_counterexample:
  "drop (length demo_setup) (snd (loop_body (demo_sim clear_ds) demo_ctx demo_setup)) ! 7 =
     ComputeDistances demo_detector demo_q \<and>
   drop (length demo_setup) (snd (loop_body (demo_sim clear_ds) demo_ctx demo_setup)) ! 8 =
     ReadUserDebugParameter 0 \<and>
   map_of (user_params demo_ctx) ''collision_margin'' = Some 0"
proof (intro conjI)
  show "drop (length demo_setup) (snd (loop_body (demo_sim clear_ds) demo_ctx demo_setup)) ! 7 =
     ComputeDistances demo_detector demo_q"
    by (simp add: demo_loop_clear demo_sense_def)
  show "drop (length demo_setup) (snd (loop_body (demo_sim clear_ds) demo_ctx demo_setup)) ! 8 =
     ReadUserDebugParameter 0"
    by (simp add: demo_loop_clear demo_sense_def)
  show "map_of (user_params demo_ctx) ''collision_margin'' = Some 0"
    by (simp add: demo_ctx_def)
qed

section \<open>The two scenes and the sliders\<close>

lemma main_setup_trace:
  assumes "main_setup env tr = (Inr c, tr')"
  shows "\<exists>sl n1 n2.
      tr' = tr @ [Connect GUI, Connect DIRECT] @ sl @ n1 @ n2 \<and>
      gui_id c = returned (ret_int env) tr [Connect GUI, Connect DIRECT] 0 \<and>
      col_id c = returned (ret_int env) tr [Connect GUI, Connect DIRECT] 1 \<and>
      create_user_debug_params env (gui_id c) (tr @ [Connect GUI, Connect DIRECT]) =
        (Inr (user_params c), tr @ [Connect GUI, Connect DIRECT] @ sl) \<and>
      load_environment env (gui_id c) (tr @ [Connect GUI, Connect DIRECT] @ sl) =
        (Inr (bodies c), tr @ [Connect GUI, Connect DIRECT] @ sl @ n1) \<and>
      load_environment env (col_id c) (tr @ [Connect GUI, Connect DIRECT] @ sl @ n1) =
        (Inr (collision_bodies c), tr @ [Connect GUI, Connect DIRECT] @ sl @ n1 @ n2)"
proof -
  from main_setup_Inr [OF assms] obtain t3 t4 where
    g: "gui_id c = ret_int env tr (Connect GUI)"
    and k: "col_id c = ret_int env (tr @ [Connect GUI]) (Connect DIRECT)"
    and cr: "create_user_debug_params env (gui_id c) (tr @ [Connect GUI, Connect DIRECT]) =
               (Inr (user_params c), t3)"
    and l1: "load_environment env (gui_id c) t3 = (Inr (bodies c), t4)"
    and l2: "load_environment env (col_id c) t4 = (Inr (collision_bodies c), tr')"
    by blast
  from create_user_debug_params_Inr [OF cr] obtain sl
    where sl: "t3 = (tr @ [Connect GUI, Connect DIRECT]) @ sl" by blast
  from load_environment_Inr [OF l1] obtain n1 where n1: "t4 = t3 @ n1" by blast
  from load_environment_Inr [OF l2] obtain n2 where n2: "tr' = t4 @ n2" by blast
  from g k cr l1 l2 sl n1 n2 show ?thesis
    by (intro exI [of _ sl] exI [of _ n1] exI [of _ n2]) (simp add: returned_def)
qed

text \<open>
  C4: the setup creates exactly eight sliders on the GUI session, right after the two
  connections: collision_margin and lbr_iiwa_joint1 to lbr_iiwa_joint7, and the slider
  mapping binds each name to the identifier its creation returned. An iteration that
  completes reads exactly eight sliders, by these identifiers: first the seven joint
  sliders, in order, whose values make up the 7-element vector \<open>q\<close> passed to the distance
  query, and then the margin slider; it issues no other slider read.
\<close>

theorem slider_reads:
  assumes "main_setup env tr0 = (Inr c, tr1)" and "loop_body env c tr = (Inr u, tr')"
  shows "\<exists>sl rest new q.
      tr1 = tr0 @ [Connect GUI, Connect DIRECT] @ sl @ rest \<and>
      sl = [AddUserDebugParameter ''collision_margin'' 0 0.2 0.01 (gui_id c),
            AddUserDebugParameter ''lbr_iiwa_joint1'' (- 2 * pi) (2 * pi) 0 (gui_id c),
            AddUserDebugParameter ''lbr_iiwa_joint2'' (- 2 * pi) (2 * pi) 0 (gui_id c),
            AddUserDebugParameter ''lbr_iiwa_joint3'' (- 2 * pi) (2 * pi) 0 (gui_id c),
            AddUserDebugParameter ''lbr_iiwa_joint4'' (- 2 * pi) (2 * pi) 0 (gui_id c),
            AddUserDebugParameter ''lbr_iiwa_joint5'' (- 2 * pi) (2 * pi) 0 (gui_id c),
            AddUserDebugParameter ''lbr_iiwa_joint6'' (- 2 * pi) (2 * pi) 0 (gui_id c),
            AddUserDebugParameter ''lbr_iiwa_joint7'' (- 2 * pi) (2 * pi) 0 (gui_id c)] \<and>
      \<not> list_ex is_slider rest \<and>
      user_params c =
        [(''collision_margin'', returned (ret_int env) (tr0 @ [Connect GUI, Connect DIRECT]) sl 0),
         (''lbr_iiwa_joint1'', returned (ret_int env) (tr0 @ [Connect GUI, Connect DIRECT]) sl 1),
         (''lbr_iiwa_joint2'', returned (ret_int env) (tr0 @ [Connect GUI, Connect DIRECT]) sl 2),
         (''lbr_iiwa_joint3'', returned (ret_int env) (tr0 @ [Connect GUI, Connect DIRECT]) sl 3),
         (''lbr_iiwa_joint4'', returned (ret_int env) (tr0 @ [Connect GUI, Connect DIRECT]) sl 4),
         (''lbr_iiwa_joint5'', returned (ret_int env) (tr0 @ [Connect GUI, Connect DIRECT]) sl 5),
         (''lbr_iiwa_joint6'', returned (ret_int env) (tr0 @ [Connect GUI, Connect DIRECT]) sl 6),
         (''lbr_iiwa_joint7'', returned (ret_int env) (tr0 @ [Connect GUI, Connect DIRECT]) sl 7)] \<and>
      tr' = tr @ new \<and>
      filter is_slider_read new =
        map (\<lambda>k. ReadUserDebugParameter
                 (returned (ret_int env) (tr0 @ [Connect GUI, Connect DIRECT]) sl k))
          [1, 2, 3, 4, 5, 6, 7, 0] \<and>
      take 7 new =
        map (\<lambda>k. ReadUserDebugParameter
                 (returned (ret_int env) (tr0 @ [Connect GUI, Connect DIRECT]) sl k))
          [1, 2, 3, 4, 5, 6, 7] \<and>
      q = map (returned (ret_float env) tr new) [0..<7] \<and>
      length q = 7 \<and>
      new ! 7 = ComputeDistances (col_detector c) q \<and>
      new ! 8 = ReadUserDebugParameter
                  (returned (ret_int env) (tr0 @ [Connect GUI, Connect DIRECT]) sl 0)"
proof -
  define t where "t = tr0 @ [Connect GUI, Connect DIRECT]"
  from main_setup_trace [OF assms(1)] obtain sl n1 n2 where
    tr1: "tr1 = tr0 @ [Connect GUI, Connect DIRECT] @ sl @ n1 @ n2"
    and cr: "create_user_debug_params env (gui_id c) (tr0 @ [Connect GUI, Connect DIRECT]) =
        (Inr (user_params c), tr0 @ [Connect GUI, Connect DIRECT] @ sl)"
    and l1: "load_environment env (gui_id c) (tr0 @ [Connect GUI, Connect DIRECT] @ sl) =
        (Inr (bodies c), tr0 @ [Connect GUI, Connect DIRECT] @ sl @ n1)"
    and l2: "load_environment env (col_id c) (tr0 @ [Connect GUI, Connect DIRECT] @ sl @ n1) =
        (Inr (collision_bodies c), tr0 @ [Connect GUI, Connect DIRECT] @ sl @ n1 @ n2)"
    by blast
  from cr have cr': "create_user_debug_params env (gui_id c) t = (Inr (user_params c), t @ sl)"
    by (simp add: t_def)
  from create_user_debug_params_Inr [OF cr']
  have sl: "sl = [AddUserDebugParameter ''collision_margin'' 0 0.2 0.01 (gui_id c),
            AddUserDebugParameter ''lbr_iiwa_joint1'' (- 2 * pi) (2 * pi) 0 (gui_id c),
            AddUserDebugParameter ''lbr_iiwa_joint2'' (- 2 * pi) (2 * pi) 0 (gui_id c),
            AddUserDebugParameter ''lbr_iiwa_joint3'' (- 2 * pi) (2 * pi) 0 (gui_id c),
            AddUserDebugParameter ''lbr_iiwa_joint4'' (- 2 * pi) (2 * pi) 0 (gui_id c),
            AddUserDebugParameter ''lbr_iiwa_joint5'' (- 2 * pi) (2 * pi) 0 (gui_id c),
            AddUserDebugParameter ''lbr_iiwa_joint6'' (- 2 * pi) (2 * pi) 0 (gui_id c),
            AddUserDebugParameter ''lbr_iiwa_joint7'' (- 2 * pi) (2 * pi) 0 (gui_id c)]"
    and ups: "user_params c =
        [(''collision_margin'', returned (ret_int env) t sl 0),
         (''lbr_iiwa_joint1'', returned (ret_int env) t sl 1),
         (''lbr_iiwa_joint2'', returned (ret_int env) t sl 2),
         (''lbr_iiwa_joint3'', returned (ret_int env) t sl 3),
         (''lbr_iiwa_joint4'', returned (ret_int env) t sl 4),
         (''lbr_iiwa_joint5'', returned (ret_int env) t sl 5),
         (''lbr_iiwa_joint6'', returned (ret_int env) t sl 6),
         (''lbr_iiwa_joint7'', returned (ret_int env) t sl 7)]"
    by auto
  have "\<not> list_ex is_slider n1" "\<not> list_ex is_slider n2"
    using load_environment_Inr [OF l1] load_environment_Inr [OF l2] by auto
  then have rest: "\<not> list_ex is_slider (n1 @ n2)"
    by (auto simp: list_ex_iff)
  from tr1 have tr1': "tr1 = tr0 @ [Connect GUI, Connect DIRECT] @ sl @ (n1 @ n2)"
    by simp
  from loop_body_Inr [OF assms(2)] obtain p1 p2 p3 p4 p5 p6 p7 pm q d margin ds act new where
    ps: "map_of (user_params c) ''lbr_iiwa_joint1'' = Some p1"
      "map_of (user_params c) ''lbr_iiwa_joint2'' = Some p2"
      "map_of (user_params c) ''lbr_iiwa_joint3'' = Some p3"
      "map_of (user_params c) ''lbr_iiwa_joint4'' = Some p4"
      "map_of (user_params c) ''lbr_iiwa_joint5'' = Some p5"
      "map_of (user_params c) ''lbr_iiwa_joint6'' = Some p6"
      "map_of (user_params c) ''lbr_iiwa_joint7'' = Some p7"
      "map_of (user_params c) ''collision_margin'' = Some pm"
    and tr': "tr' = tr @ new"
    and new: "new = [ReadUserDebugParameter p1, ReadUserDebugParameter p2, ReadUserDebugParameter p3,
             ReadUserDebugParameter p4, ReadUserDebugParameter p5, ReadUserDebugParameter p6,
             ReadUserDebugParameter p7, ComputeDistances (col_detector c) q,
             ReadUserDebugParameter pm, InCollision (col_detector c) q margin] @ act @
            [Print ''Distance to obstacles = '' d, StepSimulation (gui_id c)]"
    and q: "q = map (returned (ret_float env) tr new) [0..<7]"
    and act: "if min_distance_below ds margin
       then act = [AddUserDebugText ''Avoiding collision'' [0, 0, 1.5] [1, 0, 0] 2 0.2]
       else nat (returned (ret_int env) tr new 10) \<le> 7 \<and>
            act = GetNumJoints (robot_id c) (gui_id c) #
                  map (\<lambda>j. ResetJointState (robot_id c) j (q ! j) (gui_id c))
                    [0..<nat (returned (ret_int env) tr new 10)]"
    by blast
  have ids: "p1 = returned (ret_int env) t sl 1" "p2 = returned (ret_int env) t sl 2"
    "p3 = returned (ret_int env) t sl 3" "p4 = returned (ret_int env) t sl 4"
    "p5 = returned (ret_int env) t sl 5" "p6 = returned (ret_int env) t sl 6"
    "p7 = returned (ret_int env) t sl 7" "pm = returned (ret_int env) t sl 0"
    using ps unfolding ups by simp_all
  have quiet: "filter is_slider_read act = []"
    using act by (cases "min_distance_below ds margin") (simp_all add: no_step_resets)
  have reads: "filter is_slider_read new =
        map (\<lambda>k. ReadUserDebugParameter (returned (ret_int env) t sl k)) [1, 2, 3, 4, 5, 6, 7, 0]"
    using quiet by (subst new) (simp add: ids)
  have t7: "take 7 new =
        map (\<lambda>k. ReadUserDebugParameter (returned (ret_int env) t sl k)) [1, 2, 3, 4, 5, 6, 7]"
    by (subst new) (simp add: ids)
  have lq: "length q = 7" by (subst q) simp
  have n7: "new ! 7 = ComputeDistances (col_detector c) q"
    and n8: "new ! 8 = ReadUserDebugParameter (returned (ret_int env) t sl 0)"
    by (subst new, simp add: ids)+
  show ?thesis
    unfolding t_def [symmetric]
    by (rule exI [of _ sl], rule exI [of _ "n1 @ n2"], rule exI [of _ new], rule exI [of _ q],
        intro conjI)
      (fact tr1' [folded t_def] sl rest ups tr' reads t7 q lq n7 n8)+
qed


theorem slider_reads_witness:
  "main_setup (demo_sim clear_ds) [] = (Inr demo_ctx, demo_setup) \<and>
   loop_body (demo_sim clear_ds) demo_ctx demo_setup =
     (Inr (), demo_setup @ demo_sense @ demo_apply @ demo_finish clear_ds) \<and>
   demo_setup = [] @ [Connect GUI, Connect DIRECT] @ demo_sliders @ (demo_scene 0 @ demo_scene 1) \<and>
   user_params demo_ctx =
     [(''collision_margin'',
       returned (ret_int (demo_sim clear_ds)) [Connect GUI, Connect DIRECT] demo_sliders 0),
      (''lbr_iiwa_joint1'',
       returned (ret_int (demo_sim clear_ds)) [Connect GUI, Connect DIRECT] demo_sliders 1),
      (''lbr_iiwa_joint2'',
       returned (ret_int (demo_sim clear_ds)) [Connect GUI, Connect DIRECT] demo_sliders 2),
      (''lbr_iiwa_joint3'',
       returned (ret_int (demo_sim clear_ds)) [Connect GUI, Connect DIRECT] demo_sliders 3),
      (''lbr_iiwa_joint4'',
       returned (ret_int (demo_sim clear_ds)) [Connect GUI, Connect DIRECT] demo_sliders 4),
      (''lbr_iiwa_joint5'',
       returned (ret_int (demo_sim clear_ds)) [Connect GUI, Connect DIRECT] demo_sliders 5),
      (''lbr_iiwa_joint6'',
       returned (ret_int (demo_sim clear_ds)) [Connect GUI, Connect DIRECT] demo_sliders 6),
      (''lbr_iiwa_joint7'',
       returned (ret_int (demo_sim clear_ds)) [Connect GUI, Connect DIRECT] demo_sliders 7)] \<and>
   filter is_slider_read (demo_sense @ demo_apply @ demo_finish clear_ds) =
     map (\<lambda>k. ReadUserDebugParameter
              (returned (ret_int (demo_sim clear_ds)) [Connect GUI, Connect DIRECT] demo_sliders k))
       [1, 2, 3, 4, 5, 6, 7, 0] \<and>
   filter is_slider_read (demo_sense @ demo_apply @ demo_finish clear_ds) =
     map ReadUserDebugParameter [1, 2, 3, 4, 5, 6, 7, 0]"
proof -
  note run = demo_setup_run [of clear_ds] and it = demo_loop_clear [of demo_setup]
  have gui: "gui_id demo_ctx = 0" by (simp add: demo_ctx_def)
  from slider_reads [OF run it] obtain sl rest new where
    whole: "demo_setup = [] @ [Connect GUI, Connect DIRECT] @ sl @ rest"
    and sl: "sl = [AddUserDebugParameter ''collision_margin'' 0 0.2 0.01 (gui_id demo_ctx),
            AddUserDebugParameter ''lbr_iiwa_joint1'' (- 2 * pi) (2 * pi) 0 (gui_id demo_ctx),
            AddUserDebugParameter ''lbr_iiwa_joint2'' (- 2 * pi) (2 * pi) 0 (gui_id demo_ctx),
            AddUserDebugParameter ''lbr_iiwa_joint3'' (- 2 * pi) (2 * pi) 0 (gui_id demo_ctx),
            AddUserDebugParameter ''lbr_iiwa_joint4'' (- 2 * pi) (2 * pi) 0 (gui_id demo_ctx),
            AddUserDebugParameter ''lbr_iiwa_joint5'' (- 2 * pi) (2 * pi) 0 (gui_id demo_ctx),
            AddUserDebugParameter ''lbr_iiwa_joint6'' (- 2 * pi) (2 * pi) 0 (gui_id demo_ctx),
            AddUserDebugParameter ''lbr_iiwa_joint7'' (- 2 * pi) (2 * pi) 0 (gui_id demo_ctx)]"
    and ups: "user_params demo_ctx =
        [(''collision_margin'', returned (ret_int (demo_sim clear_ds)) ([] @ [Connect GUI, Connect DIRECT]) sl 0),
         (''lbr_iiwa_joint1'', returned (ret_int (demo_sim clear_ds)) ([] @ [Connect GUI, Connect DIRECT]) sl 1),
         (''lbr_iiwa_joint2'', returned (ret_int (demo_sim clear_ds)) ([] @ [Connect GUI, Connect DIRECT]) sl 2),
         (''lbr_iiwa_joint3'', returned (ret_int (demo_sim clear_ds)) ([] @ [Connect GUI, Connect DIRECT]) sl 3),
         (''lbr_iiwa_joint4'', returned (ret_int (demo_sim clear_ds)) ([] @ [Connect GUI, Connect DIRECT]) sl 4),
         (''lbr_iiwa_joint5'', returned (ret_int (demo_sim clear_ds)) ([] @ [Connect GUI, Connect DIRECT]) sl 5),
         (''lbr_iiwa_joint6'', returned (ret_int (demo_sim clear_ds)) ([] @ [Connect GUI, Connect DIRECT]) sl 6),
         (''lbr_iiwa_joint7'', returned (ret_int (demo_sim clear_ds)) ([] @ [Connect GUI, Connect DIRECT]) sl 7)]"
    and new: "demo_setup @ demo_sense @ demo_apply @ demo_finish clear_ds = demo_setup @ new"
    and reads: "filter is_slider_read new =
        map (\<lambda>k. ReadUserDebugParameter
                 (returned (ret_int (demo_sim clear_ds)) ([] @ [Connect GUI, Connect DIRECT]) sl k))
          [1, 2, 3, 4, 5, 6, 7, 0]"
    by blast
  from sl gui have sl': "sl = demo_sliders"
    by (simp add: demo_sliders_def)
  from new have new': "new = demo_sense @ demo_apply @ demo_finish clear_ds"
    by simp
  have parts: "demo_setup = [] @ [Connect GUI, Connect DIRECT] @ demo_sliders @ (demo_scene 0 @ demo_scene 1)"
    by (simp add: demo_setup_def)
  have a: "user_params demo_ctx =
     [(''collision_margin'',
       returned (ret_int (demo_sim clear_ds)) [Connect GUI, Connect DIRECT] demo_sliders 0),
      (''lbr_iiwa_joint1'',
       returned (ret_int (demo_sim clear_ds)) [Connect GUI, Connect DIRECT] demo_sliders 1),
      (''lbr_iiwa_joint2'',
       returned (ret_int (demo_sim clear_ds)) [Connect GUI, Connect DIRECT] demo_sliders 2),
      (''lbr_iiwa_joint3'',
       returned (ret_int (demo_sim clear_ds)) [Connect GUI, Connect DIRECT] demo_sliders 3),
      (''lbr_iiwa_joint4'',
       returned (ret_int (demo_sim clear_ds)) [Connect GUI, Connect DIRECT] demo_sliders 4),
      (''lbr_iiwa_joint5'',
       returned (ret_int (demo_sim clear_ds)) [Connect GUI, Connect DIRECT] demo_sliders 5),
      (''lbr_iiwa_joint6'',
       returned (ret_int (demo_sim clear_ds)) [Connect GUI, Connect DIRECT] demo_sliders 6),
      (''lbr_iiwa_joint7'',
       returned (ret_int (demo_sim clear_ds)) [Connect GUI, Connect DIRECT] demo_sliders 7)]"
    using ups unfolding sl' by simp
  have b: "filter is_slider_read (demo_sense @ demo_apply @ demo_finish clear_ds) =
     map (\<lambda>k. ReadUserDebugParameter
              (returned (ret_int (demo_sim clear_ds)) [Connect GUI, Connect DIRECT] demo_sliders k))
       [1, 2, 3, 4, 5, 6, 7, 0]"
    using reads unfolding sl' new' by simp
  have ids: "map (\<lambda>k. ReadUserDebugParameter
              (returned (ret_int (demo_sim clear_ds)) [Connect GUI, Connect DIRECT] demo_sliders k))
       [1, 2, 3, 4, 5, 6, 7, 0] = map ReadUserDebugParameter [1, 2, 3, 4, 5, 6, 7, 0]"
    by (simp add: returned_def demo_sim_def demo_sliders_def)
  from b ids have c: "filter is_slider_read (demo_sense @ demo_apply @ demo_finish clear_ds) =
     map ReadUserDebugParameter [1, 2, 3, 4, 5, 6, 7, 0]"
    by simp
  from run it parts a b c show ?thesis by blast
qed

text \<open>
  C2: in main's setup the body mappings of the two sessions are the results of two runs
  of load_environment, one on the GUI session and then one on the headless session. The
  calls of the two runs are the same up to the client id; both mappings have the keys
  robot, ground, cube1, cube2, cube3, and each name is bound in either session to the
  identifier returned by the loading call at the same position, which loads the same
  file at the same base position with useFixedBase=True.
\<close>

theorem scenes_identical:
  assumes "main_setup env tr = (Inr c, tr')"
  shows "\<exists>t n1 n2.
      load_environment env (gui_id c) t = (Inr (bodies c), t @ n1) \<and>
      load_environment env (col_id c) (t @ n1) = (Inr (collision_bodies c), t @ n1 @ n2) \<and>
      tr' = t @ n1 @ n2 \<and>
      n2 = map (on_client (col_id c)) n1 \<and>
      n1 = map (on_client (gui_id c)) n2 \<and>
      map fst (bodies c) = [''robot'', ''ground'', ''cube1'', ''cube2'', ''cube3''] \<and>
      map fst (collision_bodies c) = [''robot'', ''ground'', ''cube1'', ''cube2'', ''cube3''] \<and>
      list_all
        (\<lambda>(name, k).
           (\<exists>f p. n1 ! k = LoadURDF f p True (gui_id c) \<and> n2 ! k = LoadURDF f p True (col_id c)) \<and>
           map_of (bodies c) name = Some (returned (ret_int env) t n1 k) \<and>
           map_of (collision_bodies c) name = Some (returned (ret_int env) (t @ n1) n2 k))
        [(''robot'', 2), (''ground'', 1), (''cube1'', 3), (''cube2'', 4), (''cube3'', 5)]"
proof -
  from main_setup_trace [OF assms] obtain sl n1 n2 where
    tr': "tr' = tr @ [Connect GUI, Connect DIRECT] @ sl @ n1 @ n2"
    and l1: "load_environment env (gui_id c) (tr @ [Connect GUI, Connect DIRECT] @ sl) =
        (Inr (bodies c), tr @ [Connect GUI, Connect DIRECT] @ sl @ n1)"
    and l2: "load_environment env (col_id c) (tr @ [Connect GUI, Connect DIRECT] @ sl @ n1) =
        (Inr (collision_bodies c), tr @ [Connect GUI, Connect DIRECT] @ sl @ n1 @ n2)"
    by blast
  define t where "t = tr @ [Connect GUI, Connect DIRECT] @ sl"
  from l1 have l1': "load_environment env (gui_id c) t = (Inr (bodies c), t @ n1)"
    by (simp add: t_def)
  from l2 have l2': "load_environment env (col_id c) (t @ n1) = (Inr (collision_bodies c), t @ n1 @ n2)"
    by (simp add: t_def)
  from tr' have tr'': "tr' = t @ n1 @ n2"
    by (simp add: t_def)
  from load_environment_Inr [OF l1']
  have n1: "n1 = [SetAdditionalSearchPath (getDataPath env) (gui_id c),
             LoadURDF ''plane.urdf'' [0, 0, 0] True (gui_id c),
             LoadURDF ''kuka_iiwa/model.urdf'' [0, 0, 0] True (gui_id c),
             LoadURDF ''cube.urdf'' [1, 1, 0.5] True (gui_id c),
             LoadURDF ''cube.urdf'' [-1, -1, 0.5] True (gui_id c),
             LoadURDF ''cube.urdf'' [1, -1, 0.5] True (gui_id c)]"
    and b1: "bodies c = [(''robot'', returned (ret_int env) t n1 2),
           (''ground'', returned (ret_int env) t n1 1),
           (''cube1'', returned (ret_int env) t n1 3),
           (''cube2'', returned (ret_int env) t n1 4),
           (''cube3'', returned (ret_int env) t n1 5)]"
    by auto
  from load_environment_Inr [OF l2'] 
  have n2: "n2 = [SetAdditionalSearchPath (getDataPath env) (col_id c),
             LoadURDF ''plane.urdf'' [0, 0, 0] True (col_id c),
             LoadURDF ''kuka_iiwa/model.urdf'' [0, 0, 0] True (col_id c),
             LoadURDF ''cube.urdf'' [1, 1, 0.5] True (col_id c),
             LoadURDF ''cube.urdf'' [-1, -1, 0.5] True (col_id c),
             LoadURDF ''cube.urdf'' [1, -1, 0.5] True (col_id c)]"
    and b2: "collision_bodies c = [(''robot'', returned (ret_int env) (t @ n1) n2 2),
           (''ground'', returned (ret_int env) (t @ n1) n2 1),
           (''cube1'', returned (ret_int env) (t @ n1) n2 3),
           (''cube2'', returned (ret_int env) (t @ n1) n2 4),
           (''cube3'', returned (ret_int env) (t @ n1) n2 5)]"
    by auto
  have same: "n2 = map (on_client (col_id c)) n1" "n1 = map (on_client (gui_id c)) n2"
    by (subst n1, subst n2, simp)+
  have k1: "map fst (bodies c) = [''robot'', ''ground'', ''cube1'', ''cube2'', ''cube3'']"
    by (subst b1) simp
  have k2: "map fst (collision_bodies c) = [''robot'', ''ground'', ''cube1'', ''cube2'', ''cube3'']"
    by (subst b2) simp
  have nth1: "n1 ! 1 = LoadURDF ''plane.urdf'' [0, 0, 0] True (gui_id c)"
    "n1 ! 2 = LoadURDF ''kuka_iiwa/model.urdf'' [0, 0, 0] True (gui_id c)"
    "n1 ! 3 = LoadURDF ''cube.urdf'' [1, 1, 0.5] True (gui_id c)"
    "n1 ! 4 = LoadURDF ''cube.urdf'' [-1, -1, 0.5] True (gui_id c)"
    "n1 ! 5 = LoadURDF ''cube.urdf'' [1, -1, 0.5] True (gui_id c)"
    by (subst n1, simp)+
  have nth2: "n2 ! 1 = LoadURDF ''plane.urdf'' [0, 0, 0] True (col_id c)"
    "n2 ! 2 = LoadURDF ''kuka_iiwa/model.urdf'' [0, 0, 0] True (col_id c)"
    "n2 ! 3 = LoadURDF ''cube.urdf'' [1, 1, 0.5] True (col_id c)"
    "n2 ! 4 = LoadURDF ''cube.urdf'' [-1, -1, 0.5] True (col_id c)"
    "n2 ! 5 = LoadURDF ''cube.urdf'' [1, -1, 0.5] True (col_id c)"
    by (subst n2, simp)+
  have m1: "map_of (bodies c) ''robot'' = Some (returned (ret_int env) t n1 2)"
    "map_of (bodies c) ''ground'' = Some (returned (ret_int env) t n1 1)"
    "map_of (bodies c) ''cube1'' = Some (returned (ret_int env) t n1 3)"
    "map_of (bodies c) ''cube2'' = Some (returned (ret_int env) t n1 4)"
    "map_of (bodies c) ''cube3'' = Some (returned (ret_int env) t n1 5)"
    by (subst b1, simp)+
  have m2: "map_of (collision_bodies c) ''robot'' = Some (returned (ret_int env) (t @ n1) n2 2)"
    "map_of (collision_bodies c) ''ground'' = Some (returned (ret_int env) (t @ n1) n2 1)"
    "map_of (collision_bodies c) ''cube1'' = Some (returned (ret_int env) (t @ n1) n2 3)"
    "map_of (collision_bodies c) ''cube2'' = Some (returned (ret_int env) (t @ n1) n2 4)"
    "map_of (collision_bodies c) ''cube3'' = Some (returned (ret_int env) (t @ n1) n2 5)"
    by (subst b2, simp)+
  have each: "list_all
        (\<lambda>(name, k).
           (\<exists>f p. n1 ! k = LoadURDF f p True (gui_id c) \<and> n2 ! k = LoadURDF f p True (col_id c)) \<and>
           map_of (bodies c) name = Some (returned (ret_int env) t n1 k) \<and>
           map_of (collision_bodies c) name = Some (returned (ret_int env) (t @ n1) n2 k))
        [(''robot'', 2), (''ground'', 1), (''cube1'', 3), (''cube2'', 4), (''cube3'', 5)]"
    using nth1 nth2 m1 m2 by simp
  show ?thesis
    by (rule exI [of _ t], rule exI [of _ n1], rule exI [of _ n2], intro conjI)
      (fact l1' l2' tr'' same k1 k2 each)+
qed

theorem scenes_identical_witness:
  "main_setup (demo_sim clear_ds) [] = (Inr demo_ctx, demo_setup) \<and>
   map fst (bodies demo_ctx) = [''robot'', ''ground'', ''cube1'', ''cube2'', ''cube3''] \<and>
   map fst (collision_bodies demo_ctx) = [''robot'', ''ground'', ''cube1'', ''cube2'', ''cube3'']"
proof -
  note run = demo_setup_run [of clear_ds]
  from scenes_identical [OF run]
  have "map fst (bodies demo_ctx) = [''robot'', ''ground'', ''cube1'', ''cube2'', ''cube3''] \<and>
   map fst (collision_bodies demo_ctx) = [''robot'', ''ground'', ''cube1'', ''cube2'', ''cube3'']"
    by blast
  with run show ?thesis by blast
qed

section \<open>The calls of an iteration, whatever its outcome\<close>

lemma only_calls_reset_joints:
  assumes "\<And>j v. P (ResetJointState r j v g)"
  shows "only_calls P (reset_joints env r st g js)"
  by (induction js)
    (auto intro!: only_calls_pbind only_calls_invoke only_calls_pure assms simp: resetJointState_def)

lemma only_calls_update_robot_state:
  assumes "P (GetNumJoints r g)" and "\<And>j v. P (ResetJointState r j v g)"
  shows "only_calls P (update_robot_state env r st g)"
  unfolding update_robot_state_def getNumJoints_def
  by (intro only_calls_pbind only_calls_invoke only_calls_reset_joints assms)

lemma loop_body_calls: "only_calls (loop_call c) (loop_body env c)"
  unfolding loop_body_def read_slider_def in_collision_def Let_def pyb_defs
  by (intro only_calls_pbind only_calls_invoke only_calls_pure only_calls_if
      only_calls_update_robot_state) simp_all










lemma loop_body_new:
  assumes "loop_body env c tr = (r, tr')"
  obtains new where "tr' = tr @ new" and "list_all (loop_call c) new"
  using loop_body_calls [of c env] assms unfolding only_calls_def
  by (metis snd_conv)

lemma loop_call_query:
  "loop_call c x \<Longrightarrow> is_query x \<Longrightarrow>
     (\<exists>q. x = ComputeDistances (col_detector c) q) \<or> (\<exists>q m. x = InCollision (col_detector c) q m)"
  by (cases x) simp_all

lemma loop_call_explicit:
  "loop_call c x \<Longrightarrow> explicit_client x = None \<or> explicit_client x = Some (gui_id c)"
  by (cases x) simp_all

lemma loop_call_session:
  "loop_call c x \<Longrightarrow> session_of x = Some s \<Longrightarrow> s \<noteq> gui_id c \<Longrightarrow> s \<noteq> default_client \<Longrightarrow>
     is_query x"
  by (cases x) simp_all

text \<open>
  C5: the detector main builds is given the headless session, that session's body mapping
  and exactly four pairs, each pairing link lbr_iiwa_link_7 of the body robot with one of
  ground, cube1, cube2, cube3; every distance or collision query an iteration issues,
  whatever the iteration's outcome, is a query of this detector.
\<close>

theorem monitored_pairs:
  assumes "main_setup env tr0 = (Inr c, tr1)" and "loop_body env c tr = (r, tr')"
  shows "col_detector c =
           \<lparr>det_client = col_id c, det_bodies = collision_bodies c,
            det_pairs =
              [(\<lparr>body_name = ''robot'', link_name = Some ''lbr_iiwa_link_7''\<rparr>,
                \<lparr>body_name = ''ground'', link_name = None\<rparr>),
               (\<lparr>body_name = ''robot'', link_name = Some ''lbr_iiwa_link_7''\<rparr>,
                \<lparr>body_name = ''cube1'', link_name = None\<rparr>),
               (\<lparr>body_name = ''robot'', link_name = Some ''lbr_iiwa_link_7''\<rparr>,
                \<lparr>body_name = ''cube2'', link_name = None\<rparr>),
               (\<lparr>body_name = ''robot'', link_name = Some ''lbr_iiwa_link_7''\<rparr>,
                \<lparr>body_name = ''cube3'', link_name = None\<rparr>)]\<rparr> \<and>
         length (det_pairs (col_detector c)) = 4 \<and>
         map fst (collision_bodies c) = [''robot'', ''ground'', ''cube1'', ''cube2'', ''cube3''] \<and>
         (\<exists>new. tr' = tr @ new \<and>
            list_all
              (\<lambda>x. is_query x \<longrightarrow>
                 (\<exists>q. x = ComputeDistances (col_detector c) q) \<or>
                 (\<exists>q m. x = InCollision (col_detector c) q m))
              new)"
proof -
  from main_setup_Inr [OF assms(1)] obtain t4 where
    det: "col_detector c =
           \<lparr>det_client = col_id c, det_bodies = collision_bodies c,
            det_pairs =
              [(\<lparr>body_name = ''robot'', link_name = Some ''lbr_iiwa_link_7''\<rparr>,
                \<lparr>body_name = ''ground'', link_name = None\<rparr>),
               (\<lparr>body_name = ''robot'', link_name = Some ''lbr_iiwa_link_7''\<rparr>,
                \<lparr>body_name = ''cube1'', link_name = None\<rparr>),
               (\<lparr>body_name = ''robot'', link_name = Some ''lbr_iiwa_link_7''\<rparr>,
                \<lparr>body_name = ''cube2'', link_name = None\<rparr>),
               (\<lparr>body_name = ''robot'', link_name = Some ''lbr_iiwa_link_7''\<rparr>,
                \<lparr>body_name = ''cube3'', link_name = None\<rparr>)]\<rparr>"
    and l2: "load_environment env (col_id c) t4 = (Inr (collision_bodies c), tr1)"
    by blast
  from det have four: "length (det_pairs (col_detector c)) = 4"
    by simp
  from load_environment_Inr [OF l2]
  have keys: "map fst (collision_bodies c) = [''robot'', ''ground'', ''cube1'', ''cube2'', ''cube3'']"
    by auto
  from assms(2) obtain new where new: "tr' = tr @ new" "list_all (loop_call c) new"
    by (rule loop_body_new)
  from new(2) have "list_all
              (\<lambda>x. is_query x \<longrightarrow>
                 (\<exists>q. x = ComputeDistances (col_detector c) q) \<or>
                 (\<exists>q m. x = InCollision (col_detector c) q m))
              new"
    by (auto simp: list_all_iff dest: loop_call_query)
  with new(1) have queries: "\<exists>new. tr' = tr @ new \<and>
            list_all
              (\<lambda>x. is_query x \<longrightarrow>
                 (\<exists>q. x = ComputeDistances (col_detector c) q) \<or>
                 (\<exists>q m. x = InCollision (col_detector c) q m))
              new"
    by blast
  show ?thesis
    by (intro conjI) (fact det four keys queries)+
qed

theorem monitored_pairs_witness:
  "main_setup (demo_sim clear_ds) [] = (Inr demo_ctx, demo_setup) \<and>
   loop_body (demo_sim clear_ds) demo_ctx demo_setup =
     (Inr (), demo_setup @ demo_sense @ demo_apply @ demo_finish clear_ds) \<and>
   length (det_pairs (col_detector demo_ctx)) = 4 \<and>
   list_all
     (\<lambda>x. is_query x \<longrightarrow>
        (\<exists>q. x = ComputeDistances (col_detector demo_ctx) q) \<or>
        (\<exists>q m. x = InCollision (col_detector demo_ctx) q m))
     (demo_sense @ demo_apply @ demo_finish clear_ds)"
proof -
  note run = demo_setup_run [of clear_ds] and it = demo_loop_clear [of demo_setup]
  from monitored_pairs [OF run it]
  have "length (det_pairs (col_detector demo_ctx)) = 4 \<and>
   list_all
     (\<lambda>x. is_query x \<longrightarrow>
        (\<exists>q. x = ComputeDistances (col_detector demo_ctx) q) \<or>
        (\<exists>q m. x = InCollision (col_detector demo_ctx) q m))
     (demo_sense @ demo_apply @ demo_finish clear_ds)"
    by auto
  with run it show ?thesis by blast
qed

text \<open>
  C9: whatever the outcome of an iteration, every stepSimulation it issues is on the GUI
  session, and every call that passes a client id passes the GUI session's. When the
  headless session is neither the GUI session nor pybullet's default client (which the
  calls without a client id address), the only calls of the iteration that address the
  headless session are the detector's distance and collision queries.
\<close>

theorem headless_untouched:
  assumes "main_setup env tr0 = (Inr c, tr1)" and "loop_body env c tr = (r, tr')"
  shows "det_client (col_detector c) = col_id c \<and>
         (\<exists>new. tr' = tr @ new \<and>
            list_all (\<lambda>x. is_step x \<longrightarrow> x = StepSimulation (gui_id c)) new \<and>
            list_all (\<lambda>x. explicit_client x = None \<or> explicit_client x = Some (gui_id c)) new \<and>
            (col_id c \<noteq> gui_id c \<and> col_id c \<noteq> default_client \<longrightarrow>
               list_all (\<lambda>x. session_of x = Some (col_id c) \<longrightarrow> is_query x) new))"
proof -
  from main_setup_Inr [OF assms(1)] have det: "det_client (col_detector c) = col_id c"
    by auto
  from assms(2) obtain new where new: "tr' = tr @ new" "list_all (loop_call c) new"
    by (rule loop_body_new)
  have step: "x = StepSimulation (gui_id c)" if "loop_call c x" "is_step x" for x
    using that by (cases x) simp_all
  from new(2) have a: "list_all (\<lambda>x. is_step x \<longrightarrow> x = StepSimulation (gui_id c)) new"
    by (auto simp: list_all_iff dest: step)
  from new(2) have b: "list_all (\<lambda>x. explicit_client x = None \<or> explicit_client x = Some (gui_id c)) new"
    by (simp add: list_all_iff loop_call_explicit)
  from new(2) have d: "col_id c \<noteq> gui_id c \<and> col_id c \<noteq> default_client \<longrightarrow>
               list_all (\<lambda>x. session_of x = Some (col_id c) \<longrightarrow> is_query x) new"
    by (auto simp: list_all_iff dest: loop_call_session)
  from new(1) a b d det show ?thesis by blast
qed

theorem headless_untouched_witness:
  "main_setup (demo_sim clear_ds) [] = (Inr demo_ctx, demo_setup) \<and>
   loop_body (demo_sim clear_ds) demo_ctx demo_setup =
     (Inr (), demo_setup @ demo_sense @ demo_apply @ demo_finish clear_ds) \<and>
   col_id demo_ctx \<noteq> gui_id demo_ctx \<and> col_id demo_ctx \<noteq> default_client \<and>
   list_all (\<lambda>x. session_of x = Some (col_id demo_ctx) \<longrightarrow> is_query x)
     (demo_sense @ demo_apply @ demo_finish clear_ds) \<and>
   list_all (\<lambda>x. is_step x \<longrightarrow> x = StepSimulation (gui_id demo_ctx))
     (demo_sense @ demo_apply @ demo_finish clear_ds)"
proof -
  note run = demo_setup_run [of clear_ds] and it = demo_loop_clear [of demo_setup]
  have ids: "col_id demo_ctx \<noteq> gui_id demo_ctx" "col_id demo_ctx \<noteq> default_client"
    by (simp_all add: demo_ctx_def default_client_def)
  from headless_untouched [OF run it] ids
  have "list_all (\<lambda>x. session_of x = Some (col_id demo_ctx) \<longrightarrow> is_query x)
     (demo_sense @ demo_apply @ demo_finish clear_ds) \<and>
   list_all (\<lambda>x. is_step x \<longrightarrow> x = StepSimulation (gui_id demo_ctx))
     (demo_sense @ demo_apply @ demo_finish clear_ds)"
    by auto
  with run it ids show ?thesis by blast
qed

section \<open>The loop and its iterations\<close>

lemma main_loop_continue:
  "iterations env c n tr = (Inr u, t) \<Longrightarrow> main_loop env c tr = main_loop env c t"
proof (induction n arbitrary: tr)
  case 0
  then show ?case by (simp add: preturn_Inr)
next
  case (Suc n)
  from Suc.prems obtain v t1 where b: "loop_body env c tr = (Inr v, t1)"
    and r: "iterations env c n t1 = (Inr u, t)"
    by (auto simp: pbind_Inr)
  from b have "main_loop env c tr = main_loop env c t1"
    by (subst main_loop.simps) simp
  with Suc.IH [OF r] show ?case by simp
qed

lemma main_loop_raised:
  "iterations env c n tr = (Inl e, tr') \<Longrightarrow> main_loop env c tr = Some (e, tr')"
proof (induction n arbitrary: tr)
  case 0
  then show ?case by (simp add: preturn_def)
next
  case (Suc n)
  from Suc.prems consider (now) "loop_body env c tr = (Inl e, tr')"
    | (later) v t1 where "loop_body env c tr = (Inr v, t1)" "iterations env c n t1 = (Inl e, tr')"
    by (auto simp: pbind_Inl)
  then show ?case
  proof cases
    case now
    then show ?thesis by (subst main_loop.simps) simp
  next
    case later
    from later(1) have "main_loop env c tr = main_loop env c t1"
      by (subst main_loop.simps) simp
    with Suc.IH [OF later(2)] show ?thesis by simp
  qed
qed

lemma main_loop_Some:
  assumes "main_loop env c tr = Some r"
  shows "\<exists>n. iterations env c n tr = (Inl (fst r), snd r)"
proof (rule main_loop.raw_induct
    [where P = "\<lambda>env c tr r. \<exists>n. iterations env c n tr = (Inl (fst r), snd r)", OF _ assms])
  fix f :: "sim \<Rightarrow> ctx \<Rightarrow> call list \<Rightarrow> (error \<times> call list) option"
  fix env c tr r
  assume IH: "\<And>env c tr r. f env c tr = Some r \<Longrightarrow>
                \<exists>n. iterations env c n tr = (Inl (fst r), snd r)"
    and step: "(case loop_body env c tr of (Inl e, tr') \<Rightarrow> Some (e, tr')
                | (Inr u, tr') \<Rightarrow> f env c tr') = Some r"
  obtain res t1 where body: "loop_body env c tr = (res, t1)"
    by (cases "loop_body env c tr")
  show "\<exists>n. iterations env c n tr = (Inl (fst r), snd r)"
  proof (cases res)
    case (Inl e)
    with body step have "iterations env c (Suc 0) tr = (Inl (fst r), snd r)"
      by (auto simp: pbind_def)
    then show ?thesis ..
  next
    case (Inr v)
    with body step have "f env c t1 = Some r" by simp
    from IH [OF this] obtain n where "iterations env c n t1 = (Inl (fst r), snd r)" ..
    with body Inr have "iterations env c (Suc n) tr = (Inl (fst r), snd r)"
      by (simp add: pbind_def)
    then show ?thesis ..
  qed
qed

lemma main_loop_Some_iff:
  "main_loop env c tr = Some (e, tr') \<longleftrightarrow> (\<exists>n. iterations env c n tr = (Inl e, tr'))"
  using main_loop_Some [of env c tr "(e, tr')"] main_loop_raised [of env c _ tr e tr']
  by auto

lemma main_loop_None_iff:
  "main_loop env c tr = None \<longleftrightarrow> (\<forall>n. \<exists>t. iterations env c n tr = (Inr (), t))"
proof
  assume none: "main_loop env c tr = None"
  show "\<forall>n. \<exists>t. iterations env c n tr = (Inr (), t)"
  proof
    fix n
    obtain res t where it: "iterations env c n tr = (res, t)" by (cases "iterations env c n tr")
    show "\<exists>t. iterations env c n tr = (Inr (), t)"
    proof (cases res)
      case (Inl e)
      with it main_loop_raised [of env c n tr e t] none show ?thesis by simp
    next
      case (Inr u)
      with it show ?thesis by simp
    qed
  qed
next
  assume all: "\<forall>n. \<exists>t. iterations env c n tr = (Inr (), t)"
  show "main_loop env c tr = None"
  proof (cases "main_loop env c tr")
    case None
    then show ?thesis .
  next
    case (Some r)
    from main_loop_Some [OF this] obtain n where "iterations env c n tr = (Inl (fst r), snd r)" ..
    with all show ?thesis by (metis Inl_Inr_False fst_conv)
  qed
qed


section \<open>Exceptions\<close>













section \<open>Indexing the state in update_robot_state\<close>

lemma invoke_Inl:
  "invoke env ret c tr = (Inl e, tr') \<longleftrightarrow>
     (\<exists>msg. raises env tr c = Some msg \<and> e = LibraryError msg \<and> tr' = tr @ [c])"
  by (auto simp: invoke_def split: option.splits)

lemma array_getitem_Inl:
  "array_getitem st i tr = (Inl e, tr') \<longleftrightarrow> length st \<le> i \<and> e = IndexError \<and> tr' = tr"
  by (auto simp: array_getitem_def preturn_def praise_def)

lemma reset_joints_IndexError:
  "reset_joints env r st g js tr = (Inl IndexError, tr') \<Longrightarrow> \<exists>j\<in>set js. length st \<le> j"
proof (induction js arbitrary: tr)
  case Nil
  then show ?case by (simp add: preturn_def)
next
  case (Cons j js)
  show ?case
  proof (cases "j < length st")
    case True
    with Cons.prems have "reset_joints env r st g js (tr @ [ResetJointState r j (st ! j) g])
        = (Inl IndexError, tr')"
      by (auto simp: pbind_Inl run_Inr resetJointState_def invoke_Inl array_getitem_Inl)
    from Cons.IH [OF this] show ?thesis by auto
  next
    case False
    then show ?thesis by auto
  qed
qed

lemma reset_joints_must_fail:
  assumes "reset_joints env r st g js tr = (res, tr')"
    and "\<And>msg. res \<noteq> Inl (LibraryError msg)"
    and "\<exists>j\<in>set js. length st \<le> j"
  shows "res = Inl IndexError"
  using assms(1,3)
proof (induction js arbitrary: tr)
  case Nil
  then show ?case by simp
next
  case (Cons j js)
  show ?case
  proof (cases "j < length st")
    case False
    with Cons.prems(1) show ?thesis
      by (simp add: pbind_def array_getitem_def praise_def)
  next
    case True
    with Cons.prems(2) have later: "\<exists>j\<in>set js. length st \<le> j" by auto
    show ?thesis
    proof (cases "raises env tr (ResetJointState r j (st ! j) g)")
      case (Some msg)
      with True Cons.prems(1) have "res = Inl (LibraryError msg)"
        by (simp add: pbind_def array_getitem_def preturn_def resetJointState_def invoke_def)
      with assms(2) [of msg] show ?thesis by simp
    next
      case None
      with True Cons.prems(1)
      have "reset_joints env r st g js (tr @ [ResetJointState r j (st ! j) g]) = (res, tr')"
        by (simp add: pbind_def array_getitem_def preturn_def resetJointState_def invoke_def)
      from Cons.IH [OF this later] show ?thesis .
    qed
  qed
qed

lemma update_robot_state_IndexError:
  assumes "update_robot_state env r st g tr = (Inl IndexError, tr')"
  shows "length st < nat (ret_int env tr (GetNumJoints r g))"
proof -
  from assms have "reset_joints env r st g [0..<nat (ret_int env tr (GetNumJoints r g))]
      (tr @ [GetNumJoints r g]) = (Inl IndexError, tr')"
    by (auto simp: update_robot_state_def getNumJoints_def pbind_Inl invoke_Inl invoke_Inr)
  from reset_joints_IndexError [OF this] show ?thesis by auto
qed

lemma update_robot_state_must_fail:
  assumes "update_robot_state env r st g tr = (res, tr')"
    and "\<And>msg. res \<noteq> Inl (LibraryError msg)"
    and "length st < nat (ret_int env tr (GetNumJoints r g))"
  shows "res = Inl IndexError"
proof (cases "raises env tr (GetNumJoints r g)")
  case (Some msg)
  with assms(1) have "res = Inl (LibraryError msg)"
    by (simp add: update_robot_state_def getNumJoints_def pbind_def invoke_def)
  with assms(2) [of msg] show ?thesis by simp
next
  case None
  with assms(1) have a: "reset_joints env r st g [0..<nat (ret_int env tr (GetNumJoints r g))]
      (tr @ [GetNumJoints r g]) = (res, tr')"
    by (simp add: update_robot_state_def getNumJoints_def pbind_def invoke_def)
  from assms(3) have b: "\<exists>j\<in>set [0..<nat (ret_int env tr (GetNumJoints r g))]. length st \<le> j"
    by auto
  from a assms(2) b show ?thesis
    by (rule reset_joints_must_fail)
qed

lemma never_raises_reset_joints:
  assumes "\<forall>j\<in>set js. j < length st"
  shows "never_raises IndexError (reset_joints env r st g js)"
  using assms
  by (induction js)
    (auto intro!: never_raises_pbind never_raises_invoke never_raises_pure
      simp: resetJointState_def)

lemma never_raises_update_robot_state:
  assumes "\<And>t. nat (ret_int env t (GetNumJoints r g)) \<le> length st"
  shows "never_raises IndexError (update_robot_state env r st g)"
  unfolding update_robot_state_def getNumJoints_def
proof (rule never_raises_pbind)
  show "never_raises IndexError (invoke env (ret_int env) (GetNumJoints r g))"
    by (rule never_raises_invoke) simp
next
  fix n tr tr'
  assume "invoke env (ret_int env) (GetNumJoints r g) tr = (Inr n, tr')"
  then have "n = ret_int env tr (GetNumJoints r g)"
    by (simp add: invoke_Inr)
  with assms [of tr] have "\<forall>j\<in>set [0..<nat n]. j < length st"
    by auto
  then show "never_raises IndexError (reset_joints env r st g [0..<nat n])"
    by (rule never_raises_reset_joints)
qed

lemma never_raises_seq:
  "never_raises e m \<Longrightarrow> (\<And>a. never_raises e (f a)) \<Longrightarrow> never_raises e (pbind m f)"
  by (rule never_raises_pbind)

lemma invoke_no_IndexError: "never_raises IndexError (invoke env ret c)"
  by (rule never_raises_invoke) simp

lemma never_raises_if:
  "never_raises e m1 \<Longrightarrow> never_raises e m2 \<Longrightarrow> never_raises e (if b then m1 else m2)"
  by simp

lemma loop_body_no_IndexError:
  assumes "\<And>t. ret_int env t (GetNumJoints (robot_id c) (gui_id c)) \<le> 7"
  shows "never_raises IndexError (loop_body env c)"
proof -
  have u: "never_raises IndexError
      (update_robot_state env (robot_id c) [q1, q2, q3, q4, q5, q6, q7] (gui_id c))"
    for q1 q2 q3 q4 q5 q6 q7
  proof (rule never_raises_update_robot_state)
    fix t
    from assms [of t] show "nat (ret_int env t (GetNumJoints (robot_id c) (gui_id c)))
        \<le> length [q1, q2, q3, q4, q5, q6, q7]"
      by simp
  qed
  show ?thesis
    unfolding loop_body_def read_slider_def in_collision_def Let_def pyb_defs
    by (intro never_raises_seq invoke_no_IndexError never_raises_pure(1,5) never_raises_if u)
qed

text \<open>
  C10: update_robot_state indexes the state at the joint indices 0, 1, ... below the joint
  count the simulator reports. It ends with an IndexError only if the state is shorter
  than the joint count, and, when no library call raises, exactly if it is; when it
  returns it has reset every joint below the count to the state's entry. In main the
  state is the 7-element \<open>q\<close>, so an iteration never ends with an IndexError when the
  simulator reports at most seven joints for the robot.
\<close>

theorem index_safety:
  "(update_robot_state env r st g tr = (res, tr') \<longrightarrow>
      (res = Inl IndexError \<longrightarrow> length st < nat (ret_int env tr (GetNumJoints r g))) \<and>
      ((\<forall>msg. res \<noteq> Inl (LibraryError msg)) \<longrightarrow>
         (res = Inl IndexError \<longleftrightarrow> length st < nat (ret_int env tr (GetNumJoints r g)))) \<and>
      (\<forall>u. res = Inr u \<longrightarrow>
         tr' = tr @ GetNumJoints r g #
                 map (\<lambda>j. ResetJointState r j (st ! j) g)
                   [0..<nat (ret_int env tr (GetNumJoints r g))])) \<and>
   ((\<forall>t. ret_int env t (GetNumJoints (robot_id c) (gui_id c)) \<le> 7) \<longrightarrow>
      never_raises IndexError (loop_body env c))"
proof (intro conjI impI allI)
  assume "update_robot_state env r st g tr = (res, tr')" and "res = Inl IndexError"
  then show "length st < nat (ret_int env tr (GetNumJoints r g))"
    using update_robot_state_IndexError by simp
next
  assume run: "update_robot_state env r st g tr = (res, tr')"
    and lib: "\<forall>msg. res \<noteq> Inl (LibraryError msg)"
  show "res = Inl IndexError \<longleftrightarrow> length st < nat (ret_int env tr (GetNumJoints r g))"
  proof
    assume "res = Inl IndexError"
    with run show "length st < nat (ret_int env tr (GetNumJoints r g))"
      using update_robot_state_IndexError by simp
  next
    assume "length st < nat (ret_int env tr (GetNumJoints r g))"
    with run lib show "res = Inl IndexError"
      using update_robot_state_must_fail by blast
  qed
next
  fix u
  assume "update_robot_state env r st g tr = (res, tr')" and "res = Inr u"
  then show "tr' = tr @ GetNumJoints r g #
                 map (\<lambda>j. ResetJointState r j (st ! j) g)
                   [0..<nat (ret_int env tr (GetNumJoints r g))]"
    using update_robot_state_Inr by simp
next
  assume "\<forall>t. ret_int env t (GetNumJoints (robot_id c) (gui_id c)) \<le> 7"
  then show "never_raises IndexError (loop_body env c)"
    using loop_body_no_IndexError by simp
qed


theorem index_safety_witness:
  "update_robot_state (demo_sim []) 1 [0.1, 0.2] 0 [] =
     (Inl IndexError, [GetNumJoints 1 0, ResetJointState 1 0 0.1 0, ResetJointState 1 1 0.2 0]) \<and>
   length [0.1, 0.2 :: real] < nat (ret_int (demo_sim []) [] (GetNumJoints 1 0)) \<and>
   never_raises IndexError (loop_body (demo_sim clear_ds) demo_ctx)"
proof -
  have run: "update_robot_state (demo_sim []) 1 [0.1, 0.2] 0 [] =
     (Inl IndexError, [GetNumJoints 1 0, ResetJointState 1 0 0.1 0, ResetJointState 1 1 0.2 0])"
    by (simp add: update_robot_state_def getNumJoints_def resetJointState_def demo_defs upt_0_7)
  have joints: "\<forall>t. ret_int (demo_sim clear_ds) t (GetNumJoints (robot_id demo_ctx) (gui_id demo_ctx)) \<le> 7"
    by (simp add: demo_sim_def)
  note upd = index_safety [where env = "demo_sim []" and r = 1 and st = "[0.1, 0.2]" and g = 0
      and tr = "[]" and res = "Inl IndexError"
      and tr' = "[GetNumJoints 1 0, ResetJointState 1 0 0.1 0, ResetJointState 1 1 0.2 0]"]
  from upd run have short: "length [0.1, 0.2 :: real] < nat (ret_int (demo_sim []) [] (GetNumJoints 1 0))"
    by blast
  from index_safety [where env = "demo_sim clear_ds" and c = demo_ctx] joints
  have "never_raises IndexError (loop_body (demo_sim clear_ds) demo_ctx)"
    by blast
  with run short show ?thesis by blast
qed

section \<open>The loop has no exit\<close>

lemma invoke_no_KeyError: "never_raises (KeyError k) (invoke env ret c)"
  by (rule never_raises_invoke) simp

lemma reset_joints_no_KeyError: "never_raises (KeyError k) (reset_joints env r st g js)"
  by (induction js)
    (auto intro!: never_raises_seq invoke_no_KeyError never_raises_pure(1,4)
      simp: resetJointState_def)

lemma update_robot_state_no_KeyError: "never_raises (KeyError k) (update_robot_state env r st g)"
  unfolding update_robot_state_def getNumJoints_def
  by (intro never_raises_seq invoke_no_KeyError reset_joints_no_KeyError)

lemma load_environment_no_KeyError: "never_raises (KeyError k) (load_environment env cl)"
  unfolding load_environment_def pyb_defs
  by (intro never_raises_seq invoke_no_KeyError never_raises_pure(1))

lemma create_user_debug_params_no_KeyError:
  "never_raises (KeyError k) (create_user_debug_params env g)"
  unfolding create_user_debug_params_def pyb_defs
  by (intro never_raises_seq invoke_no_KeyError never_raises_pure(1))

lemma robot_bound:
  assumes "load_environment env cl tr = (Inr bs, tr')"
  shows "never_raises e (dict_getitem bs ''robot'')"
proof (rule never_raises_pure(2))
  from load_environment_Inr [OF assms] show "map_of bs ''robot'' \<noteq> None" by auto
qed

lemma main_setup_no_KeyError: "never_raises (KeyError k) (main_setup env)"
  unfolding main_setup_def Let_def connect_def
  by (rule never_raises_seq [OF invoke_no_KeyError],
      rule never_raises_seq [OF invoke_no_KeyError],
      rule never_raises_seq [OF create_user_debug_params_no_KeyError],
      rule never_raises_pbind [OF load_environment_no_KeyError],
      rule never_raises_seq [OF load_environment_no_KeyError],
      rule never_raises_seq, erule robot_bound, rule never_raises_pure(1))

lemma slider_bound:
  assumes "main_setup env tr0 = (Inr c, tr1)"
    and "name \<in> set [''collision_margin'', ''lbr_iiwa_joint1'', ''lbr_iiwa_joint2'',
           ''lbr_iiwa_joint3'', ''lbr_iiwa_joint4'', ''lbr_iiwa_joint5'', ''lbr_iiwa_joint6'',
           ''lbr_iiwa_joint7'']"
  shows "never_raises e (dict_getitem (user_params c) name)"
proof (rule never_raises_pure(2))
  from main_setup_trace [OF assms(1)] obtain sl where
    "create_user_debug_params env (gui_id c) (tr0 @ [Connect GUI, Connect DIRECT]) =
        (Inr (user_params c), tr0 @ [Connect GUI, Connect DIRECT] @ sl)"
    by blast
  from create_user_debug_params_Inr [OF this] assms(2)
  show "map_of (user_params c) name \<noteq> None" by auto
qed

lemma loop_body_no_KeyError:
  assumes "main_setup env tr0 = (Inr c, tr1)"
  shows "never_raises (KeyError k) (loop_body env c)"
  unfolding loop_body_def read_slider_def in_collision_def Let_def pyb_defs
  by (intro never_raises_seq invoke_no_KeyError never_raises_pure(1) never_raises_if
      update_robot_state_no_KeyError slider_bound [OF assms]) simp_all

lemma iterations_no_KeyError:
  assumes "main_setup env tr0 = (Inr c, tr1)"
  shows "never_raises (KeyError k) (iterations env c n)"
  by (induction n)
    (auto intro!: never_raises_seq never_raises_pure(1) loop_body_no_KeyError [OF assms])

lemma main_no_KeyError:
  assumes "main env tr0 = Some (e, tr')"
  shows "e = IndexError \<or> (\<exists>msg. e = LibraryError msg)"
proof -
  have "e \<noteq> KeyError k" for k
  proof (cases "main_setup env tr0")
    case (Pair res t1)
    show ?thesis
    proof (cases res)
      case (Inl e')
      with Pair assms have "fst (main_setup env tr0) = Inl e"
        by (simp add: main_def)
      with main_setup_no_KeyError [of k env] show ?thesis
        by (auto simp: never_raises_def)
    next
      case (Inr c)
      with Pair assms have "main_loop env c t1 = Some (e, tr')"
        by (simp add: main_def)
      then obtain n where "iterations env c n t1 = (Inl e, tr')"
        by (auto simp: main_loop_Some_iff)
      then have "fst (iterations env c n t1) = Inl e" by simp
      with iterations_no_KeyError [of env tr0 c t1 k n] Pair Inr show ?thesis
        by (auto simp: never_raises_def)
    qed
  qed
  then show ?thesis by (cases e) auto
qed

lemma main_setup_no_IndexError: "never_raises IndexError (main_setup env)"
  unfolding main_setup_def Let_def create_user_debug_params_def load_environment_def pyb_defs
  by (intro never_raises_seq invoke_no_IndexError never_raises_pure(1,5))

lemma iterations_no_IndexError:
  assumes "\<And>t. ret_int env t (GetNumJoints (robot_id c) (gui_id c)) \<le> 7"
  shows "never_raises IndexError (iterations env c n)"
  by (induction n)
    (auto intro!: never_raises_seq never_raises_pure(1) loop_body_no_IndexError assms)

lemma main_only_library:
  assumes "main env tr0 = Some (e, tr')"
    and joints: "\<And>t b g. ret_int env t (GetNumJoints b g) \<le> 7"
  shows "\<exists>msg. e = LibraryError msg"
proof -
  have "e \<noteq> IndexError"
  proof (cases "main_setup env tr0")
    case (Pair res t1)
    show ?thesis
    proof (cases res)
      case (Inl e')
      with Pair assms(1) have "fst (main_setup env tr0) = Inl e"
        by (simp add: main_def)
      with main_setup_no_IndexError [of env] show ?thesis
        by (auto simp: never_raises_def)
    next
      case (Inr c)
      with Pair assms(1) have "main_loop env c t1 = Some (e, tr')"
        by (simp add: main_def)
      then obtain n where "iterations env c n t1 = (Inl e, tr')"
        by (auto simp: main_loop_Some_iff)
      then have "fst (iterations env c n t1) = Inl e" by simp
      with iterations_no_IndexError [of env c n, OF joints] show ?thesis
        by (auto simp: never_raises_def)
    qed
  qed
  with main_no_KeyError [OF assms(1)] show ?thesis by blast
qed

lemma demo_iterations:
  "\<exists>t. iterations (demo_sim clear_ds) demo_ctx n tr = (Inr (), t)"
  by (induction n arbitrary: tr) (simp_all add: preturn_def pbind_def demo_loop_clear)

text \<open>
  C6: the loop has no exit of its own. It runs forever exactly when every number of
  iterations completes; it is left exactly when some iteration raises, with that
  exception; after any number of completed iterations the loop runs the body once more.
  main runs forever exactly when the setup returns and every number of iterations
  completes, and when main ends it ends with a library exception or with the IndexError
  of indexing \<open>q\<close>, never with a KeyError of the script's own dictionaries; in a
  simulator that reports at most seven joints it ends with a library exception only.
\<close>

theorem loop_never_exits:
  "(main_loop env c tr = None \<longleftrightarrow> (\<forall>n. \<exists>t. iterations env c n tr = (Inr (), t))) \<and>
   (main_loop env c tr = Some (e, tr') \<longleftrightarrow> (\<exists>n. iterations env c n tr = (Inl e, tr'))) \<and>
   (iterations env c n tr = (Inr (), t) \<longrightarrow>
      main_loop env c tr =
        (case loop_body env c t of
           (Inl e, tr') \<Rightarrow> Some (e, tr')
         | (Inr u, tr') \<Rightarrow> main_loop env c tr')) \<and>
   (main env tr0 = None \<longleftrightarrow>
      (\<exists>c t1. main_setup env tr0 = (Inr c, t1) \<and>
         (\<forall>n. \<exists>t. iterations env c n t1 = (Inr (), t)))) \<and>
   (main env tr0 = Some (e, tr') \<longrightarrow> e = IndexError \<or> (\<exists>msg. e = LibraryError msg)) \<and>
   (main env tr0 = Some (e, tr') \<and> (\<forall>t b g. ret_int env t (GetNumJoints b g) \<le> 7) \<longrightarrow>
      (\<exists>msg. e = LibraryError msg))"
proof (intro conjI impI)
  show "main_loop env c tr = None \<longleftrightarrow> (\<forall>n. \<exists>t. iterations env c n tr = (Inr (), t))"
    by (rule main_loop_None_iff)
  show "main_loop env c tr = Some (e, tr') \<longleftrightarrow> (\<exists>n. iterations env c n tr = (Inl e, tr'))"
    by (rule main_loop_Some_iff)
  show "main_loop env c tr =
        (case loop_body env c t of
           (Inl e, tr') \<Rightarrow> Some (e, tr')
         | (Inr u, tr') \<Rightarrow> main_loop env c tr')"
    if "iterations env c n tr = (Inr (), t)"
    using main_loop_continue [OF that] by (subst (asm) (2) main_loop.simps)
  show "main env tr0 = None \<longleftrightarrow>
      (\<exists>c t1. main_setup env tr0 = (Inr c, t1) \<and>
         (\<forall>n. \<exists>t. iterations env c n t1 = (Inr (), t)))"
    by (cases "main_setup env tr0")
      (auto simp: main_def main_loop_None_iff split: sum.splits)
  show "e = IndexError \<or> (\<exists>msg. e = LibraryError msg)" if "main env tr0 = Some (e, tr')"
    using that by (rule main_no_KeyError)
  show "\<exists>msg. e = LibraryError msg"
    if "main env tr0 = Some (e, tr') \<and> (\<forall>t b g. ret_int env t (GetNumJoints b g) \<le> 7)"
    using that main_only_library [of env tr0 e tr'] by blast
qed

theorem loop_never_exits_witness:
  "main_setup (demo_sim clear_ds) [] = (Inr demo_ctx, demo_setup) \<and>
   (\<forall>n. \<exists>t. iterations (demo_sim clear_ds) demo_ctx n demo_setup = (Inr (), t)) \<and>
   main_loop (demo_sim clear_ds) demo_ctx demo_setup = None \<and>
   main (demo_sim clear_ds) [] = None"
proof -
  note run = demo_setup_run [of clear_ds]
  have all: "\<forall>n. \<exists>t. iterations (demo_sim clear_ds) demo_ctx n demo_setup = (Inr (), t)"
    using demo_iterations by blast
  note facts = loop_never_exits [where env = "demo_sim clear_ds" and c = demo_ctx
      and tr = demo_setup and ?tr0.0 = "[]"]
  from facts all have "main_loop (demo_sim clear_ds) demo_ctx demo_setup = None"
    by blast
  moreover from facts run all have "main (demo_sim clear_ds) [] = None"
    by blast
  ultimately show ?thesis using run all by blast
qed

section \<open>The branch on the collision check\<close>

lemma pbind_peel [consumes 2, case_names stop go]:
  assumes "pbind m f tr = (r, tr')" and "only_calls A m"
    and stop: "\<And>new. tr' = tr @ new \<Longrightarrow> list_all A new \<Longrightarrow> thesis"
    and go: "\<And>a t. m tr = (Inr a, t) \<Longrightarrow> f a t = (r, tr') \<Longrightarrow> thesis"
  shows thesis
proof (cases "m tr")
  case (Pair res t)
  from assms(2) obtain new where new: "snd (m tr) = tr @ new" "list_all A new"
    unfolding only_calls_def by blast
  show ?thesis
  proof (cases res)
    case (Inl e)
    with Pair assms(1) have "tr' = t" by (simp add: pbind_def)
    with Pair new stop show ?thesis by simp
  next
    case (Inr a)
    with Pair assms(1) have "f a t = (r, tr')" by (simp add: pbind_def)
    with Pair Inr go show ?thesis by simp
  qed
qed

lemma sense_calls:
  "only_calls (\<lambda>x. is_slider_read x \<or> is_query x) (read_slider env ps name)"
  "only_calls (\<lambda>x. is_slider_read x \<or> is_query x) (compute_distances env det q)"
  "only_calls (\<lambda>x. is_slider_read x \<or> is_query x) (in_collision env det q margin)"
  unfolding read_slider_def readUserDebugParameter_def compute_distances_def in_collision_def
  by (intro only_calls_pbind only_calls_invoke only_calls_pure; simp)+

lemma sense_quiet:
  "list_all (\<lambda>x. is_slider_read x \<or> is_query x) new \<Longrightarrow>
     \<not> list_ex is_joint_reset new \<and> \<not> list_ex is_debug_text new"
  by (induction new) (auto elim: is_slider_read.elims is_query.elims)

lemma warn_calls:
  "only_calls (\<lambda>x. \<not> is_joint_reset x)
     (pbind (addUserDebugText env text p col s l)
        (\<lambda>_. pbind (print env label d) (\<lambda>_. stepSimulation env g)))"
  unfolding pyb_defs
  by (intro only_calls_pbind only_calls_invoke) simp_all

lemma apply_calls:
  "only_calls (\<lambda>x. \<not> is_debug_text x)
     (pbind (update_robot_state env r st g)
        (\<lambda>_. pbind (print env label d) (\<lambda>_. stepSimulation env g')))"
  unfolding pyb_defs
  by (intro only_calls_pbind only_calls_invoke only_calls_update_robot_state) simp_all

lemma loop_body_guard:
  assumes "loop_body env c tr = (r, tr')"
  shows "\<exists>new. tr' = tr @ new \<and>
      (list_ex is_joint_reset new \<longrightarrow>
         9 < length new \<and>
         \<not> min_distance_below (returned (ret_floats env) tr new 9)
             (returned (ret_float env) tr new 8)) \<and>
      (list_ex is_debug_text new \<longrightarrow>
         9 < length new \<and>
         min_distance_below (returned (ret_floats env) tr new 9)
           (returned (ret_float env) tr new 8))"
proof -
  let ?A = "\<lambda>x. is_slider_read x \<or> is_query x"
  have early: ?thesis if "tr' = tr @ pre @ new" "list_all ?A pre" "list_all ?A new" for pre new
  proof -
    from that(2,3) have "list_all ?A (pre @ new)" by simp
    from sense_quiet [OF this] that(1) show ?thesis
      by (intro exI [of _ "pre @ new"]) simp
  qed
  note body = assms [unfolded loop_body_def Let_def]
  from body sense_calls(1) show ?thesis
  proof (cases rule: pbind_peel)
    case (stop new)
    from early [of "[]" new] stop show ?thesis by simp
  next
    case (go q1 t1)
    from go(1) obtain p1 where t1: "t1 = tr @ [ReadUserDebugParameter p1]"
      by (auto simp: read_slider_Inr)
    note rest = go(2)
    from rest sense_calls(1) show ?thesis
    proof (cases rule: pbind_peel)
      case (stop new)
      from early [of "[ReadUserDebugParameter p1]" new] stop t1 show ?thesis by simp
    next
      case (go q2 t2)
      from go(1) obtain p2 where t2: "t2 = t1 @ [ReadUserDebugParameter p2]"
        by (auto simp: read_slider_Inr)
      note rest = go(2)
      from rest sense_calls(1) show ?thesis
      proof (cases rule: pbind_peel)
        case (stop new)
        from early [of "[ReadUserDebugParameter p1, ReadUserDebugParameter p2]" new] stop t1 t2
        show ?thesis by simp
      next
        case (go q3 t3)
        from go(1) obtain p3 where t3: "t3 = t2 @ [ReadUserDebugParameter p3]"
          by (auto simp: read_slider_Inr)
        note rest = go(2)
        from rest sense_calls(1) show ?thesis
        proof (cases rule: pbind_peel)
          case (stop new)
          from early [of "[ReadUserDebugParameter p1, ReadUserDebugParameter p2,
              ReadUserDebugParameter p3]" new] stop t1 t2 t3
          show ?thesis by simp
        next
          case (go q4 t4)
          from go(1) obtain p4 where t4: "t4 = t3 @ [ReadUserDebugParameter p4]"
            by (auto simp: read_slider_Inr)
          note rest = go(2)
          from rest sense_calls(1) show ?thesis
          proof (cases rule: pbind_peel)
            case (stop new)
            from early [of "[ReadUserDebugParameter p1, ReadUserDebugParameter p2,
                ReadUserDebugParameter p3, ReadUserDebugParameter p4]" new] stop t1 t2 t3 t4
            show ?thesis by simp
          next
            case (go q5 t5)
            from go(1) obtain p5 where t5: "t5 = t4 @ [ReadUserDebugParameter p5]"
              by (auto simp: read_slider_Inr)
            note rest = go(2)
            from rest sense_calls(1) show ?thesis
            proof (cases rule: pbind_peel)
              case (stop new)
              from early [of "[ReadUserDebugParameter p1, ReadUserDebugParameter p2,
                  ReadUserDebugParameter p3, ReadUserDebugParameter p4,
                  ReadUserDebugParameter p5]" new] stop t1 t2 t3 t4 t5
              show ?thesis by simp
            next
              case (go q6 t6)
              from go(1) obtain p6 where t6: "t6 = t5 @ [ReadUserDebugParameter p6]"
                by (auto simp: read_slider_Inr)
              note rest = go(2)
              from rest sense_calls(1) show ?thesis
              proof (cases rule: pbind_peel)
                case (stop new)
                from early [of "[ReadUserDebugParameter p1, ReadUserDebugParameter p2,
                    ReadUserDebugParameter p3, ReadUserDebugParameter p4,
                    ReadUserDebugParameter p5, ReadUserDebugParameter p6]" new]
                  stop t1 t2 t3 t4 t5 t6
                show ?thesis by simp
              next
                case (go q7 t7)
                from go(1) obtain p7 where t7: "t7 = t6 @ [ReadUserDebugParameter p7]"
                  by (auto simp: read_slider_Inr)
                define q where "q = [q1, q2, q3, q4, q5, q6, q7]"
                define pre7 where "pre7 = map ReadUserDebugParameter [p1, p2, p3, p4, p5, p6, p7]"
                have t7': "t7 = tr @ pre7" and a7: "list_all ?A pre7"
                  using t1 t2 t3 t4 t5 t6 t7 by (simp_all add: pre7_def)
                note sensed = go(2) [folded q_def]
                from sensed sense_calls(2) show ?thesis
                proof (cases rule: pbind_peel)
                  case (stop new)
                  from early [of pre7 new] stop t7' a7 show ?thesis by simp
                next
                  case (go d t8)
                  from go(1) have t8: "t8 = t7 @ [ComputeDistances (col_detector c) q]"
                    by (simp add: compute_distances_def invoke_Inr)
                  note rest = go(2)
                  from rest sense_calls(1) show ?thesis
                  proof (cases rule: pbind_peel)
                    case (stop new)
                    from early [of "pre7 @ [ComputeDistances (col_detector c) q]" new]
                      stop t7' t8 a7
                    show ?thesis by simp
                  next
                    case (go margin t9)
                    from go(1) obtain pm where t9: "t9 = t8 @ [ReadUserDebugParameter pm]"
                      and margin: "margin = ret_float env t8 (ReadUserDebugParameter pm)"
                      by (auto simp: read_slider_Inr)
                    define pre9 where "pre9 = pre7 @ [ComputeDistances (col_detector c) q,
                        ReadUserDebugParameter pm]"
                    have t9': "t9 = tr @ pre9" and a9: "list_all ?A pre9"
                      and l9: "length pre9 = 9"
                      using t7' t8 t9 a7 by (simp_all add: pre9_def pre7_def)
                    have m8: "margin = ret_float env (tr @ take 8 pre9) (pre9 ! 8)"
                      using margin t8 t7' by (simp add: pre9_def pre7_def)
                    note rest = go(2)
                    from rest sense_calls(3) show ?thesis
                    proof (cases rule: pbind_peel)
                      case (stop new)
                      from early [of pre9 new] stop t9' a9 show ?thesis by simp
                    next
                      case (go in_col t10)
                      define chk where "chk = InCollision (col_detector c) q margin"
                      from go(1) have t10: "t10 = t9 @ [chk]"
                        and in_col: "in_col = min_distance_below (ret_floats env t9 chk) margin"
                        by (simp_all add: in_collision_Inr chk_def)
                      define P where "P = (if in_col then (\<lambda>x. \<not> is_joint_reset x)
                          else (\<lambda>x. \<not> is_debug_text x))"
                      have "only_calls P
                         (pbind
                           (if \<not> in_col
                            then update_robot_state env (robot_id c) q (gui_id c)
                            else addUserDebugText env ''Avoiding collision'' [0, 0, 15 / 10]
                                   [1, 0, 0] 2 (2 / 10))
                           (\<lambda>_. pbind (print env ''Distance to obstacles = '' d)
                                  (\<lambda>_. stepSimulation env (gui_id c))))"
                        by (cases in_col) (simp_all add: P_def warn_calls apply_calls)
                      with go(2) obtain tail where tail: "tr' = t10 @ tail" "list_all P tail"
                        unfolding only_calls_def by (metis snd_conv)
                      define new where "new = pre9 @ chk # tail"
                      have new: "tr' = tr @ new"
                        using tail(1) t10 t9' by (simp add: new_def)
                      have len: "9 < length new"
                        using l9 by (simp add: new_def)
                      have r8: "returned (ret_float env) tr new 8 = margin"
                        unfolding returned_def new_def using l9 m8
                        by (simp add: nth_append)
                      have r9: "returned (ret_floats env) tr new 9 = ret_floats env t9 chk"
                        unfolding returned_def new_def using l9 t9'
                        by (simp add: nth_append)
                      have flag: "min_distance_below (returned (ret_floats env) tr new 9)
                          (returned (ret_float env) tr new 8) = in_col"
                        using r8 r9 in_col by simp
                      from sense_quiet [OF a9]
                      have quiet: "\<not> list_ex is_joint_reset pre9" "\<not> list_ex is_debug_text pre9"
                        by simp_all
                      have chk: "\<not> is_joint_reset chk" "\<not> is_debug_text chk"
                        by (simp_all add: chk_def)
                      have a: "list_ex is_joint_reset new \<longrightarrow> \<not> in_col"
                        using quiet chk tail(2)
                        by (auto simp: new_def P_def list_ex_iff list_all_iff split: if_splits)
                      have b: "list_ex is_debug_text new \<longrightarrow> in_col"
                        using quiet chk tail(2)
                        by (auto simp: new_def P_def list_ex_iff list_all_iff split: if_splits)
                      from new len a b flag show ?thesis
                        by (intro exI [of _ new]) simp
                    qed
                  qed
                qed
              qed
            qed
          qed
        qed
      qed
    qed
  qed
qed

lemma quiet_invoke: "(\<And>t. raises env t c = None) \<Longrightarrow> never_raises e (invoke env ret c)"
  by (simp add: never_raises_def invoke_def)

lemma quiet_reset_joints:
  assumes "\<And>t x. raises env t x = None" and "\<forall>j\<in>set js. j < length st"
  shows "never_raises e (reset_joints env r st g js)"
  using assms(2)
  by (induction js)
    (auto intro!: never_raises_seq quiet_invoke never_raises_pure(1,3) assms(1)
      simp: resetJointState_def)

lemma quiet_update_robot_state:
  assumes quiet: "\<And>t x. raises env t x = None"
    and "\<And>t. nat (ret_int env t (GetNumJoints r g)) \<le> length st"
  shows "never_raises e (update_robot_state env r st g)"
  unfolding update_robot_state_def getNumJoints_def
proof (rule never_raises_pbind)
  show "never_raises e (invoke env (ret_int env) (GetNumJoints r g))"
    by (rule quiet_invoke) (rule quiet)
next
  fix n tr tr'
  assume "invoke env (ret_int env) (GetNumJoints r g) tr = (Inr n, tr')"
  then have "n = ret_int env tr (GetNumJoints r g)"
    by (simp add: invoke_Inr)
  with assms(2) [of tr] have "\<forall>j\<in>set [0..<nat n]. j < length st"
    by auto
  with quiet show "never_raises e (reset_joints env r st g [0..<nat n])"
    by (rule quiet_reset_joints)
qed

lemma quiet_loop_body:
  assumes quiet: "\<And>t x. raises env t x = None"
    and joints: "\<And>t. ret_int env t (GetNumJoints (robot_id c) (gui_id c)) \<le> 7"
    and keys: "list_all (\<lambda>name. map_of (user_params c) name \<noteq> None)
        [''lbr_iiwa_joint1'', ''lbr_iiwa_joint2'', ''lbr_iiwa_joint3'', ''lbr_iiwa_joint4'',
         ''lbr_iiwa_joint5'', ''lbr_iiwa_joint6'', ''lbr_iiwa_joint7'', ''collision_margin'']"
  shows "loop_body env c tr = (Inr (), snd (loop_body env c tr))"
proof -
  have u: "never_raises e
      (update_robot_state env (robot_id c) [q1, q2, q3, q4, q5, q6, q7] (gui_id c))"
    for q1 q2 q3 q4 q5 q6 q7 e
  proof (rule quiet_update_robot_state [OF quiet])
    fix t
    from joints [of t] show "nat (ret_int env t (GetNumJoints (robot_id c) (gui_id c)))
        \<le> length [q1, q2, q3, q4, q5, q6, q7]"
      by simp
  qed
  have k: "never_raises e (dict_getitem (user_params c) name)"
    if "name \<in> set [''lbr_iiwa_joint1'', ''lbr_iiwa_joint2'', ''lbr_iiwa_joint3'',
         ''lbr_iiwa_joint4'', ''lbr_iiwa_joint5'', ''lbr_iiwa_joint6'', ''lbr_iiwa_joint7'',
         ''collision_margin'']" for name e
    using keys that by (intro never_raises_pure(2)) (auto simp: list_all_iff)
  have "never_raises e (loop_body env c)" for e
    unfolding loop_body_def read_slider_def in_collision_def Let_def pyb_defs
    by (intro never_raises_seq quiet_invoke quiet never_raises_pure(1) never_raises_if u k)
      simp_all
  then have "fst (loop_body env c tr) \<noteq> Inl e" for e
    by (simp add: never_raises_def)
  then obtain v where "fst (loop_body env c tr) = Inr v"
    by (cases "fst (loop_body env c tr)") auto
  then show ?thesis
    by (cases "loop_body env c tr") simp
qed


lemma below_margin: "min_distance_below ds m \<longleftrightarrow> (\<exists>d\<in>set ds. d < m)"
proof (cases "ds = []")
  case True
  then show ?thesis by (simp add: min_distance_below_def)
next
  case False
  then have "min_list ds = Min (set ds)"
    by (rule min_list_Min)
  with False show ?thesis
    by (simp add: min_distance_below_def Min_less_iff)
qed

text \<open>
  C1: in every iteration, whatever its outcome, a joint of the robot is reset only after
  the collision check has reported no collision, and the warning text is added only
  after it has reported a collision (the minimum of the distances the check computed is
  below the margin read from the margin slider). In an iteration that completes, the
  tenth call is that check on the seven slider values \<open>q\<close>; when it reports a collision
  the calls after it are the red warning text (colour [1,0,0]), the print and the step,
  so \<open>q\<close> is not applied; otherwise they are the calls of update_robot_state on the robot
  of the visualized session with \<open>q\<close> (the joint count, then one reset per joint to
  \<open>q[j]\<close>), the print and the step, and no warning. And the iteration does complete
  when no library call raises, the simulator reports at most seven joints and the eight
  sliders are in the slider mapping. The check reports a collision exactly when some
  distance it computed is less than the margin.
\<close>

theorem collision_branch:
  assumes "loop_body env c tr = (r, tr')"
  shows "\<exists>new. tr' = tr @ new \<and>
      (list_ex is_joint_reset new \<longrightarrow>
         9 < length new \<and>
         \<not> min_distance_below (returned (ret_floats env) tr new 9)
             (returned (ret_float env) tr new 8)) \<and>
      (list_ex is_debug_text new \<longrightarrow>
         9 < length new \<and>
         min_distance_below (returned (ret_floats env) tr new 9)
           (returned (ret_float env) tr new 8)) \<and>
      (\<forall>u. r = Inr u \<longrightarrow>
         (\<exists>pm q.
            map_of (user_params c) ''collision_margin'' = Some pm \<and>
            new ! 8 = ReadUserDebugParameter pm \<and>
            q = map (returned (ret_float env) tr new) [0..<7] \<and>
            new ! 9 = InCollision (col_detector c) q (returned (ret_float env) tr new 8) \<and>
            (if min_distance_below (returned (ret_floats env) tr new 9)
                  (returned (ret_float env) tr new 8)
             then drop 10 new =
                    [AddUserDebugText ''Avoiding collision'' [0, 0, 1.5] [1, 0, 0] 2 0.2,
                     Print ''Distance to obstacles = '' (returned (ret_floats env) tr new 7),
                     StepSimulation (gui_id c)]
             else drop 10 new =
                    GetNumJoints (robot_id c) (gui_id c) #
                    map (\<lambda>j. ResetJointState (robot_id c) j (q ! j) (gui_id c))
                      [0..<nat (returned (ret_int env) tr new 10)] @
                    [Print ''Distance to obstacles = '' (returned (ret_floats env) tr new 7),
                     StepSimulation (gui_id c)] \<and>
                  nat (returned (ret_int env) tr new 10) \<le> length q))) \<and>
      ((\<forall>t x. raises env t x = None) \<and>
       (\<forall>t. ret_int env t (GetNumJoints (robot_id c) (gui_id c)) \<le> 7) \<and>
       list_all (\<lambda>name. map_of (user_params c) name \<noteq> None)
         [''lbr_iiwa_joint1'', ''lbr_iiwa_joint2'', ''lbr_iiwa_joint3'', ''lbr_iiwa_joint4'',
          ''lbr_iiwa_joint5'', ''lbr_iiwa_joint6'', ''lbr_iiwa_joint7'', ''collision_margin''] \<longrightarrow>
       r = Inr ()) \<and>
      (\<forall>ds m. min_distance_below ds m \<longleftrightarrow> (\<exists>d\<in>set ds. d < m))"
proof -
  from loop_body_guard [OF assms] obtain new where new: "tr' = tr @ new"
    and resets: "list_ex is_joint_reset new \<longrightarrow>
         9 < length new \<and>
         \<not> min_distance_below (returned (ret_floats env) tr new 9)
             (returned (ret_float env) tr new 8)"
    and texts: "list_ex is_debug_text new \<longrightarrow>
         9 < length new \<and>
         min_distance_below (returned (ret_floats env) tr new 9)
           (returned (ret_float env) tr new 8)"
    by blast
  have completed: "\<exists>pm q.
            map_of (user_params c) ''collision_margin'' = Some pm \<and>
            new ! 8 = ReadUserDebugParameter pm \<and>
            q = map (returned (ret_float env) tr new) [0..<7] \<and>
            new ! 9 = InCollision (col_detector c) q (returned (ret_float env) tr new 8) \<and>
            (if min_distance_below (returned (ret_floats env) tr new 9)
                  (returned (ret_float env) tr new 8)
             then drop 10 new =
                    [AddUserDebugText ''Avoiding collision'' [0, 0, 1.5] [1, 0, 0] 2 0.2,
                     Print ''Distance to obstacles = '' (returned (ret_floats env) tr new 7),
                     StepSimulation (gui_id c)]
             else drop 10 new =
                    GetNumJoints (robot_id c) (gui_id c) #
                    map (\<lambda>j. ResetJointState (robot_id c) j (q ! j) (gui_id c))
                      [0..<nat (returned (ret_int env) tr new 10)] @
                    [Print ''Distance to obstacles = '' (returned (ret_floats env) tr new 7),
                     StepSimulation (gui_id c)] \<and>
                  nat (returned (ret_int env) tr new 10) \<le> length q)"
    if "r = Inr u" for u
  proof -
    from assms that have "loop_body env c tr = (Inr u, tr')" by simp
    from completed_branch [OF this] obtain new' pm q margin ds where
      new': "tr' = tr @ new'"
      and rest: "map_of (user_params c) ''collision_margin'' = Some pm"
        "new' ! 8 = ReadUserDebugParameter pm"
        "margin = returned (ret_float env) tr new' 8"
        "q = map (returned (ret_float env) tr new') [0..<7]"
        "new' ! 9 = InCollision (col_detector c) q margin"
        "ds = returned (ret_floats env) tr new' 9"
        "if min_distance_below ds margin
         then drop 10 new' =
              [AddUserDebugText ''Avoiding collision'' [0, 0, 1.5] [1, 0, 0] 2 0.2,
               Print ''Distance to obstacles = '' (returned (ret_floats env) tr new' 7),
               StepSimulation (gui_id c)] \<and>
            \<not> list_ex is_joint_reset new'
         else drop 10 new' =
              GetNumJoints (robot_id c) (gui_id c) #
              map (\<lambda>j. ResetJointState (robot_id c) j (q ! j) (gui_id c))
                [0..<nat (returned (ret_int env) tr new' 10)] @
              [Print ''Distance to obstacles = '' (returned (ret_floats env) tr new' 7),
               StepSimulation (gui_id c)] \<and>
            nat (returned (ret_int env) tr new' 10) \<le> length q \<and>
            \<not> list_ex is_debug_text new'"
      by blast
    from new new' have same: "new' = new" by simp
    show ?thesis
      using rest unfolding same
      by (intro exI [of _ pm] exI [of _ q]) (simp split: if_splits)
  qed
  have progress: "r = Inr ()"
    if "(\<forall>t x. raises env t x = None) \<and>
       (\<forall>t. ret_int env t (GetNumJoints (robot_id c) (gui_id c)) \<le> 7) \<and>
       list_all (\<lambda>name. map_of (user_params c) name \<noteq> None)
         [''lbr_iiwa_joint1'', ''lbr_iiwa_joint2'', ''lbr_iiwa_joint3'', ''lbr_iiwa_joint4'',
          ''lbr_iiwa_joint5'', ''lbr_iiwa_joint6'', ''lbr_iiwa_joint7'', ''collision_margin'']"
    using quiet_loop_body [of env c tr] that assms by simp
  have flag: "\<forall>ds m. min_distance_below ds m \<longleftrightarrow> (\<exists>d\<in>set ds. d < m)"
    by (rule allI, rule allI) (rule below_margin)
  from new resets texts completed progress flag show ?thesis by blast
qed


theorem collision_branch_witness:
  "loop_body (demo_sim close_ds) demo_ctx demo_setup =
     (Inr (), demo_setup @ demo_sense @ demo_warn @ demo_finish close_ds) \<and>
   loop_body (demo_sim clear_ds) demo_ctx demo_setup =
     (Inr (), demo_setup @ demo_sense @ demo_apply @ demo_finish clear_ds) \<and>
   min_distance_below
     (returned (ret_floats (demo_sim close_ds)) demo_setup
        (demo_sense @ demo_warn @ demo_finish close_ds) 9)
     (returned (ret_float (demo_sim close_ds)) demo_setup
        (demo_sense @ demo_warn @ demo_finish close_ds) 8) \<and>
   \<not> min_distance_below
     (returned (ret_floats (demo_sim clear_ds)) demo_setup
        (demo_sense @ demo_apply @ demo_finish clear_ds) 9)
     (returned (ret_float (demo_sim clear_ds)) demo_setup
        (demo_sense @ demo_apply @ demo_finish clear_ds) 8) \<and>
   \<not> list_ex is_joint_reset (demo_sense @ demo_warn @ demo_finish close_ds) \<and>
   \<not> list_ex is_debug_text (demo_sense @ demo_apply @ demo_finish clear_ds) \<and>
   drop 10 (demo_sense @ demo_warn @ demo_finish close_ds) =
     [AddUserDebugText ''Avoiding collision'' [0, 0, 1.5] [1, 0, 0] 2 0.2,
      Print ''Distance to obstacles = '' close_ds, StepSimulation 0] \<and>
   drop 10 (demo_sense @ demo_apply @ demo_finish clear_ds) =
     [GetNumJoints 1 0, ResetJointState 1 0 0 0, ResetJointState 1 1 0 0,
      ResetJointState 1 2 0 0, ResetJointState 1 3 0 0, ResetJointState 1 4 0 0,
      ResetJointState 1 5 0 0, ResetJointState 1 6 0 0,
      Print ''Distance to obstacles = '' clear_ds, StepSimulation 0] \<and>
   \<not> min_distance_below [1.3, 0.01, 1.1, 1] 0.01 \<and>
   min_distance_below [1.3, 0.01, 1.1, 0.009] 0.01 \<and>
   \<not> min_distance_below [] 0.01"
proof -
  note close = demo_loop_close [of demo_setup] and clear = demo_loop_clear [of demo_setup]
  have edge: "\<not> min_distance_below [1.3, 0.01, 1.1, 1] 0.01"
    "min_distance_below [1.3, 0.01, 1.1, 0.009] 0.01"
    "\<not> min_distance_below [] 0.01"
    by (simp_all add: min_distance_below_def)
  let ?warned = "demo_sense @ demo_warn @ demo_finish close_ds"
  let ?applied = "demo_sense @ demo_apply @ demo_finish clear_ds"
  have hit: "min_distance_below
     (returned (ret_floats (demo_sim close_ds)) demo_setup ?warned 9)
     (returned (ret_float (demo_sim close_ds)) demo_setup ?warned 8)"
    by (simp add: returned_def demo_sense_def demo_sim_def min_distance_below_def close_ds_def)
  have miss: "\<not> min_distance_below
     (returned (ret_floats (demo_sim clear_ds)) demo_setup ?applied 9)
     (returned (ret_float (demo_sim clear_ds)) demo_setup ?applied 8)"
    by (simp add: returned_def demo_sense_def demo_sim_def min_distance_below_def clear_ds_def)
  from collision_branch [OF close] obtain new where new: "demo_setup @ ?warned = demo_setup @ new"
    and resets: "list_ex is_joint_reset new \<longrightarrow>
         9 < length new \<and>
         \<not> min_distance_below (returned (ret_floats (demo_sim close_ds)) demo_setup new 9)
             (returned (ret_float (demo_sim close_ds)) demo_setup new 8)"
    by blast
  from new have "new = ?warned" by simp
  with resets hit have no_reset: "\<not> list_ex is_joint_reset ?warned" by blast
  from collision_branch [OF clear] obtain new' where new': "demo_setup @ ?applied = demo_setup @ new'"
    and texts: "list_ex is_debug_text new' \<longrightarrow>
         9 < length new' \<and>
         min_distance_below (returned (ret_floats (demo_sim clear_ds)) demo_setup new' 9)
           (returned (ret_float (demo_sim clear_ds)) demo_setup new' 8)"
    by blast
  from new' have "new' = ?applied" by simp
  with texts miss have no_text: "\<not> list_ex is_debug_text ?applied" by blast
  have warned: "drop 10 ?warned =
     [AddUserDebugText ''Avoiding collision'' [0, 0, 1.5] [1, 0, 0] 2 0.2,
      Print ''Distance to obstacles = '' close_ds, StepSimulation 0]"
    by (simp add: demo_sense_def demo_warn_def demo_finish_def)
  have applied: "drop 10 ?applied =
     [GetNumJoints 1 0, ResetJointState 1 0 0 0, ResetJointState 1 1 0 0,
      ResetJointState 1 2 0 0, ResetJointState 1 3 0 0, ResetJointState 1 4 0 0,
      ResetJointState 1 5 0 0, ResetJointState 1 6 0 0,
      Print ''Distance to obstacles = '' clear_ds, StepSimulation 0]"
    by (simp add: demo_sense_def demo_apply_def demo_finish_def)
  from close clear hit miss no_reset no_text warned applied edge show ?thesis by blast
qed

end
